theory Spec2Isabelle
  imports Complex_Main
begin

section \<open>ProteinKnotDetector: the three variants of the pipeline\<close>

text \<open>
  The repository holds three variants of one program: \<^verbatim>\<open>pipeline(with_ModeII_Removed).py\<close>
  (single shot only), \<^verbatim>\<open>alpha_lookup.py\<close> (command line, with a sliding window) and
  \<^verbatim>\<open>app.py\<close> (the same behind a web form). The three define functions of the same name, so a
  definition below carries the suffix \<open>_pipeline\<close>, \<open>_alpha\<close> or \<open>_app\<close> of the file it
  embeds.

  Conventions of the embedding.
  \<^item> Python's \<open>int\<close> is \<open>int\<close>; Python's \<open>float\<close> is idealised as \<open>real\<close>, so rounding, \<open>nan\<close>
    and \<open>inf\<close> are outside the model.
  \<^item> \<open>str\<close> is \<open>string\<close>; characters are bytes, so the model speaks of ASCII input.
  \<^item> A \<open>dict\<close> of probabilities is an association list in insertion order, read with
    \<open>map_of\<close>.
  \<^item> The working directory is an explicit store from file names to documents; a document
    is the list of lines that iterating over the open file yields.
  \<^item> The collaborators outside the repository (the HTTP call, the two \<open>topoly\<close> calls and
    Python's \<open>float\<close>) are the fields of a record \<open>world\<close> that every function takes.
  \<^item> Console and widget output is not modelled, except for the final conclusion, which is
    the value the main programs return.
  \<^item> The module constants \<open>WINDOW_SIZE\<close>, \<open>OVERLAP\<close> and the literal \<open>50\<close> are parameters of
    the definitions whose name ends in \<open>_cfg\<close>; the source's own functions are their
    instances at the constants.
\<close>

subsection \<open>Python built-ins\<close>

datatype py_error = ValueError

text \<open>\<open>range(start, stop, step)\<close>: a zero step raises \<open>ValueError\<close>; a positive step counts up
  while below \<open>stop\<close>, a negative one counts down while above it.\<close>

function range_up :: "int \<Rightarrow> int \<Rightarrow> int \<Rightarrow> int list" where
  "range_up start stop step =
     (if 0 < step \<and> start < stop then start # range_up (start + step) stop step else [])"
  by pat_completeness auto
termination
  by (relation "measure (\<lambda>(start, stop, step). nat (stop - start))") auto

function range_down :: "int \<Rightarrow> int \<Rightarrow> int \<Rightarrow> int list" where
  "range_down start stop step =
     (if step < 0 \<and> stop < start then start # range_down (start + step) stop step else [])"
  by pat_completeness auto
termination
  by (relation "measure (\<lambda>(start, stop, step). nat (start - stop))") auto

declare range_up.simps [simp del]
declare range_down.simps [simp del]

definition py_range :: "int \<Rightarrow> int \<Rightarrow> int \<Rightarrow> py_error + int list" where
  "py_range start stop step =
     (if step = 0 then Inl ValueError
      else if 0 < step then Inr (range_up start stop step)
      else Inr (range_down start stop step))"

text \<open>\<open>xs[i:j]\<close>: a negative index counts from the end, and both are clamped to the list.\<close>

definition slice_index :: "int \<Rightarrow> int \<Rightarrow> nat" where
  "slice_index n i = (if i < 0 then nat (max (i + n) 0) else nat (min i n))"

definition py_slice :: "'a list \<Rightarrow> int \<Rightarrow> int \<Rightarrow> 'a list" where
  "py_slice xs i j =
     (let n = int (length xs); lo = slice_index n i; hi = slice_index n j
      in take (hi - lo) (drop lo xs))"

text \<open>\<open>str.isspace\<close> on ASCII: tab to carriage return, the four separators and the space.\<close>

definition py_isspace :: "char \<Rightarrow> bool" where
  "py_isspace c = (let n = (of_char c :: nat) in (9 \<le> n \<and> n \<le> 13) \<or> (28 \<le> n \<and> n \<le> 32))"

definition py_strip :: "string \<Rightarrow> string" where
  "py_strip s = rev (dropWhile py_isspace (rev (dropWhile py_isspace s)))"

definition py_upper :: "char \<Rightarrow> char" where
  "py_upper c = (let n = (of_char c :: nat) in if 97 \<le> n \<and> n \<le> 122 then char_of (n - 32) else c)"

definition startswith :: "string \<Rightarrow> string \<Rightarrow> bool" where
  "startswith s p = (take (length p) s = p)"

text \<open>An integer inside an f-string: its decimal digits.\<close>

fun digits :: "nat \<Rightarrow> string" where
  "digits n = (if n < 10 then [char_of (48 + n)] else digits (n div 10) @ [char_of (48 + n mod 10)])"

declare digits.simps [simp del]

definition str_int :: "int \<Rightarrow> string" where
  "str_int i = (if i < 0 then CHR ''-'' # digits (nat (- i)) else digits (nat i))"

text \<open>\<open>numpy.mean\<close> of a non-empty list of floats.\<close>

definition np_mean :: "real list \<Rightarrow> real" where
  "np_mean xs = sum_list xs / real (length xs)"

text \<open>\<open>d.get(k, default)\<close> and \<open>max(d, key=d.get)\<close>: \<open>max\<close> walks the keys in order and keeps the
  first one whose value no later key exceeds; on an empty dictionary it raises, which is
  \<open>None\<close> here. Every key it asks for is in the dictionary, so the default of \<open>dict_get\<close> is
  never what it compares.\<close>

type_synonym dist = "(string \<times> real) list"

definition dict_get :: "dist \<Rightarrow> string \<Rightarrow> real \<Rightarrow> real" where
  "dict_get d k dflt = (case map_of d k of Some v \<Rightarrow> v | None \<Rightarrow> dflt)"

fun max_from :: "('a \<Rightarrow> real) \<Rightarrow> 'a \<Rightarrow> 'a list \<Rightarrow> 'a" where
  "max_from key best [] = best"
| "max_from key best (x # xs) = max_from key (if key best < key x then x else best) xs"

definition py_max_key :: "dist \<Rightarrow> string option" where
  "py_max_key d =
     (case map fst d of [] \<Rightarrow> None | k # ks \<Rightarrow> Some (max_from (\<lambda>k. dict_get d k 0) k ks))"

subsection \<open>The collaborators and the configuration\<close>

type_synonym document = "string list"
type_synonym files = "string \<rightharpoonup> document"

datatype response = ConnectionFailed | Response nat document

datatype 'a raising = Raises | Returns 'a

record world =
  requests_post :: "string \<Rightarrow> response"
  topoly_alexander :: "document \<Rightarrow> dist option raising"
  topoly_jones :: "document \<Rightarrow> dist option raising"
  py_float :: "string \<Rightarrow> real option"

definition MINIMUM_PLDDT :: real where "MINIMUM_PLDDT = 70"
definition KNOT_THRESHOLD :: real where "KNOT_THRESHOLD = 1 / 2"
definition WINDOW_SIZE :: int where "WINDOW_SIZE = 400"
definition OVERLAP :: int where "OVERLAP = 200"

subsection \<open>The window loop (alpha\_lookup.py 95--100, app.py 99--104)\<close>

text \<open>The body of \<open>for start in range(0, seq_len, step)\<close> up to the \<open>break\<close>: the window ends
  at \<open>min(start + WINDOW_SIZE, seq_len)\<close>, and the first window shorter than the minimum
  ends the loop.\<close>

fun window_loop :: "int \<Rightarrow> int \<Rightarrow> int \<Rightarrow> int list \<Rightarrow> (int \<times> int) list" where
  "window_loop seq_len window_size min_size [] = []"
| "window_loop seq_len window_size min_size (start # rest) =
     (let end_index = min (start + window_size) seq_len
      in if end_index - start < min_size then []
         else (start, end_index) # window_loop seq_len window_size min_size rest)"

definition chunks_cfg :: "int \<Rightarrow> int \<Rightarrow> int \<Rightarrow> int \<Rightarrow> py_error + (int \<times> int) list" where
  "chunks_cfg seq_len window_size overlap min_size =
     (let step = window_size - overlap
      in case py_range 0 seq_len step of
           Inl e \<Rightarrow> Inl e
         | Inr starts \<Rightarrow> Inr (window_loop seq_len window_size min_size starts))"

definition chunks :: "int \<Rightarrow> py_error + (int \<times> int) list" where
  "chunks seq_len = chunks_cfg seq_len WINDOW_SIZE OVERLAP 50"

subsection \<open>Structure retrieval\<close>

text \<open>\<open>retrieve_structure\<close> posts the sequence with blanks and newlines removed. Only status
  200 writes the file and returns its name; status 413, any other status and any exception
  of the call return \<open>None\<close> (they differ in the message printed).\<close>

definition clean_whitespace :: "string \<Rightarrow> string" where
  "clean_whitespace sequence =
     py_strip (filter (\<lambda>c. c \<noteq> CHR '' '') (filter (\<lambda>c. c \<noteq> CHR 0x0A) sequence))"

definition retrieve_structure_alpha ::
  "world \<Rightarrow> string \<Rightarrow> string \<Rightarrow> files \<Rightarrow> string option \<times> files" where
  "retrieve_structure_alpha w sequence filename fs =
     (case requests_post w (clean_whitespace sequence) of
        ConnectionFailed \<Rightarrow> (None, fs)
      | Response status_code body \<Rightarrow>
          if status_code = 200 then (Some filename, fs(filename \<mapsto> body))
          else if status_code = 413 then (None, fs)
          else (None, fs))"

definition retrieve_structure_pipeline ::
  "world \<Rightarrow> string \<Rightarrow> string \<Rightarrow> files \<Rightarrow> string option \<times> files" where
  "retrieve_structure_pipeline w sequence job_id fs =
     (let filename = job_id @ ''.pdb'';
          sequence' = clean_whitespace sequence
      in if 2000 < length sequence' then (None, fs)
         else case requests_post w sequence' of
                ConnectionFailed \<Rightarrow> (None, fs)
              | Response status_code body \<Rightarrow>
                  if status_code = 200 then (Some filename, fs(filename \<mapsto> body))
                  else (None, fs))"

subsection \<open>Quality assessment\<close>

text \<open>The confidence values of a document: for each line that starts with \<open>ATOM\<close>, the float
  in columns 60 to 66, the line being skipped when \<open>float\<close> raises \<open>ValueError\<close>.\<close>

definition plddt_values :: "world \<Rightarrow> document \<Rightarrow> real list" where
  "plddt_values w doc =
     List.map_filter
       (\<lambda>line. if startswith line ''ATOM'' then py_float w (py_strip (py_slice line 60 66))
               else None) doc"

text \<open>A file that cannot be opened takes the outer \<open>except\<close>, which returns \<open>0.0\<close> in all three
  variants.\<close>

definition calculate_plddt_pipeline :: "world \<Rightarrow> files \<Rightarrow> string \<Rightarrow> real" where
  "calculate_plddt_pipeline w fs pdb_path =
     (case fs pdb_path of
        None \<Rightarrow> 0
      | Some doc \<Rightarrow>
          (let values = plddt_values w doc
           in if values = [] then 100
              else (let mean_plddt = np_mean values
                    in if mean_plddt \<le> 1 then mean_plddt * 100 else mean_plddt)))"

definition calculate_plddt_alpha :: "world \<Rightarrow> files \<Rightarrow> string \<Rightarrow> real" where
  "calculate_plddt_alpha w fs pdb_path =
     (case fs pdb_path of
        None \<Rightarrow> 0
      | Some doc \<Rightarrow>
          (let values = plddt_values w doc
           in if values = [] then 0
              else (let mean = np_mean values in if mean \<le> 1 then mean * 100 else mean)))"

definition calculate_plddt_app :: "world \<Rightarrow> files \<Rightarrow> string \<Rightarrow> real" where
  "calculate_plddt_app w fs pdb_path =
     (case fs pdb_path of
        None \<Rightarrow> 0
      | Some doc \<Rightarrow>
          (let values = plddt_values w doc
           in if values = [] then 0 else np_mean values))"

subsection \<open>Topology classification\<close>

text \<open>A \<open>topoly\<close> call on a path reads the file; on a missing file it raises.\<close>

definition alexander_at :: "world \<Rightarrow> files \<Rightarrow> string \<Rightarrow> dist option raising" where
  "alexander_at w fs pdb_path =
     (case fs pdb_path of None \<Rightarrow> Raises | Some doc \<Rightarrow> topoly_alexander w doc)"

definition jones_at :: "world \<Rightarrow> files \<Rightarrow> string \<Rightarrow> dist option raising" where
  "jones_at w fs pdb_path =
     (case fs pdb_path of None \<Rightarrow> Raises | Some doc \<Rightarrow> topoly_jones w doc)"

text \<open>\<open>if not alex_dist\<close> holds for \<open>None\<close> and for the empty dictionary. The result is the
  triple (dominant knot, confidence, knotted probability); the \<open>except\<close> branch, taken by
  anything that raises inside the \<open>try\<close>, returns \<open>(None, 0, 0)\<close>.\<close>

definition run_topology_analysis_alpha ::
  "world \<Rightarrow> files \<Rightarrow> string \<Rightarrow> string option \<times> real \<times> real" where
  "run_topology_analysis_alpha w fs pdb_path =
     (case alexander_at w fs pdb_path of
        Raises \<Rightarrow> (None, 0, 0)
      | Returns None \<Rightarrow> (Some ''0_1'', 0, 0)
      | Returns (Some alex_dist) \<Rightarrow>
          if alex_dist = [] then (Some ''0_1'', 0, 0)
          else (let prob_unknotted = dict_get alex_dist ''0_1'' 0;
                    prob_knotted = 1 - prob_unknotted
                in case py_max_key alex_dist of
                     None \<Rightarrow> (None, 0, 0)
                   | Some dominant_knot \<Rightarrow> (Some dominant_knot, 0, prob_knotted)))"

text \<open>The pipeline variant also calls \<open>topoly.jones\<close>, before it looks at the Alexander
  result, and drops what it returns; it reports the probability of the dominant knot as
  the confidence.\<close>

definition run_topology_analysis_pipeline ::
  "world \<Rightarrow> files \<Rightarrow> string \<Rightarrow> string option \<times> real \<times> real" where
  "run_topology_analysis_pipeline w fs pdb_path =
     (case alexander_at w fs pdb_path of
        Raises \<Rightarrow> (None, 0, 0)
      | Returns alex \<Rightarrow>
          (case jones_at w fs pdb_path of
             Raises \<Rightarrow> (None, 0, 0)
           | Returns jones_dist \<Rightarrow>
               (case alex of
                  None \<Rightarrow> (Some ''0_1'', 0, 0)
                | Some alex_dist \<Rightarrow>
                    if alex_dist = [] then (Some ''0_1'', 0, 0)
                    else (let prob_unknotted = dict_get alex_dist ''0_1'' 0;
                              prob_knotted = 1 - prob_unknotted
                          in case py_max_key alex_dist of
                               None \<Rightarrow> (None, 0, 0)
                             | Some dominant_knot \<Rightarrow>
                                 (let dominant_conf = dict_get alex_dist dominant_knot 0
                                  in (Some dominant_knot, dominant_conf, prob_knotted))))))"

definition run_topology_analysis_app ::
  "world \<Rightarrow> files \<Rightarrow> string \<Rightarrow> string option \<times> real" where
  "run_topology_analysis_app w fs pdb_path =
     (case alexander_at w fs pdb_path of
        Raises \<Rightarrow> (None, 0)
      | Returns None \<Rightarrow> (Some ''0_1'', 0)
      | Returns (Some alex_dist) \<Rightarrow>
          if alex_dist = [] then (Some ''0_1'', 0)
          else (let prob_unknotted = dict_get alex_dist ''0_1'' 0;
                    prob_knotted = 1 - prob_unknotted
                in case py_max_key alex_dist of
                     None \<Rightarrow> (None, 0)
                   | Some dominant_knot \<Rightarrow> (Some dominant_knot, prob_knotted)))"

subsection \<open>Fragment analysis and the sliding window of alpha\_lookup.py\<close>

text \<open>\<open>analyze_chunk\<close> returns the tuple \<open>(is_knotted, knot_type, plddt, filename)\<close>, and
  \<open>(False, None, 0, None)\<close> when no structure came back or the probability is not above the
  threshold. A file name is never the empty string, so \<open>if pdb_file\<close> asks whether the
  retrieval returned a name.\<close>

definition analyze_chunk ::
  "world \<Rightarrow> string \<Rightarrow> int \<Rightarrow> int \<Rightarrow> files \<Rightarrow>
     (bool \<times> string option \<times> real \<times> string option) \<times> files" where
  "analyze_chunk w sequence start_index end_index fs =
     (let chunk_id = ''fragment_'' @ str_int start_index @ ''_'' @ str_int end_index;
          filename = chunk_id @ ''.pdb'';
          (pdb_file, fs') = retrieve_structure_alpha w sequence filename fs
      in case pdb_file of
           None \<Rightarrow> ((False, None, 0, None), fs')
         | Some pdb \<Rightarrow>
             (let plddt = calculate_plddt_alpha w fs' pdb;
                  (knot_type, _, prob) = run_topology_analysis_alpha w fs' pdb
              in if KNOT_THRESHOLD < prob then ((True, knot_type, plddt, Some filename), fs')
                 else ((False, None, 0, None), fs')))"

record knot_entry =
  entry_range :: string
  entry_type :: "string option"
  entry_quality :: real

fun sliding_loop ::
  "world \<Rightarrow> string \<Rightarrow> int \<Rightarrow> int \<Rightarrow> int list \<Rightarrow> files \<Rightarrow> knot_entry list \<Rightarrow>
     knot_entry list \<times> files" where
  "sliding_loop w full_sequence window_size min_size [] fs knots_found = (knots_found, fs)"
| "sliding_loop w full_sequence window_size min_size (start # rest) fs knots_found =
     (let seq_len = int (length full_sequence);
          end_index = min (start + window_size) seq_len
      in if end_index - start < min_size then (knots_found, fs)
         else (let sub_seq = py_slice full_sequence start end_index;
                   ((is_knotted, k_type, qual, fname), fs') =
                      analyze_chunk w sub_seq (start + 1) end_index fs
               in sliding_loop w full_sequence window_size min_size rest fs'
                    (if is_knotted
                     then knots_found @
                            [\<lparr>entry_range = str_int (start + 1) @ ''-'' @ str_int end_index,
                              entry_type = k_type, entry_quality = qual\<rparr>]
                     else knots_found)))"

text \<open>An exception that leaves \<open>run_sliding_window\<close> is the left summand; it carries the
  file store as it stands when the exception is raised, so that what the run did before
  failing can be read off the result.\<close>

definition run_sliding_window_cfg ::
  "world \<Rightarrow> int \<Rightarrow> int \<Rightarrow> int \<Rightarrow> string \<Rightarrow> files \<Rightarrow> py_error \<times> files + knot_entry list \<times> files" where
  "run_sliding_window_cfg w window_size overlap min_size full_sequence fs =
     (let seq_len = int (length full_sequence);
          step = window_size - overlap
      in case py_range 0 seq_len step of
           Inl e \<Rightarrow> Inl (e, fs)
         | Inr starts \<Rightarrow> Inr (sliding_loop w full_sequence window_size min_size starts fs []))"

definition run_sliding_window ::
  "world \<Rightarrow> string \<Rightarrow> files \<Rightarrow> py_error \<times> files + knot_entry list \<times> files" where
  "run_sliding_window w full_sequence fs =
     run_sliding_window_cfg w WINDOW_SIZE OVERLAP 50 full_sequence fs"

subsection \<open>The main programs\<close>

text \<open>What a run tells its user: nothing but an error message (\<open>No_input\<close>, \<open>No_structure\<close>), the
  report of a single structure, or the outcome of a windowed run.\<close>

datatype conclusion = KNOT_DETECTED "string option" | UNKNOTTED | AMBIGUOUS

record direct_report =
  quality :: real
  quality_pass :: bool
  knotted_probability :: real
  verdict :: conclusion

datatype 'e outcome =
    No_input
  | No_structure
  | Direct direct_report
  | Knots_detected "'e list"
  | No_knots_detected

definition main_pipeline :: "world \<Rightarrow> string \<Rightarrow> files \<Rightarrow> unit outcome \<times> files" where
  "main_pipeline w typed fs =
     (let raw_seq = py_strip typed;
          job_name = ''analysis_result'';
          (target_file, fs') = retrieve_structure_pipeline w raw_seq job_name fs
      in case target_file of
           None \<Rightarrow> (No_structure, fs')
         | Some target \<Rightarrow>
             (let quality_score = calculate_plddt_pipeline w fs' target;
                  (knot_type, conf_score, knot_prob) = run_topology_analysis_pipeline w fs' target
              in (Direct \<lparr>quality = quality_score,
                           quality_pass = (\<not> quality_score < MINIMUM_PLDDT),
                           knotted_probability = knot_prob,
                           verdict = (if KNOT_THRESHOLD < knot_prob then KNOT_DETECTED knot_type
                                      else if knot_prob < 2 / 10 then UNKNOTTED
                                      else AMBIGUOUS)\<rparr>, fs')))"

definition main_alpha ::
  "world \<Rightarrow> string \<Rightarrow> files \<Rightarrow> py_error \<times> files + knot_entry outcome \<times> files" where
  "main_alpha w typed fs =
     (let raw_seq = py_strip typed
      in if 400 < length raw_seq
         then (case run_sliding_window w raw_seq fs of
                 Inl e \<Rightarrow> Inl e
               | Inr (results, fs') \<Rightarrow>
                   Inr (if results \<noteq> [] then Knots_detected results else No_knots_detected, fs'))
         else (let fname = ''analysis_result.pdb'';
                   (pdb_file, fs') = retrieve_structure_alpha w raw_seq fname fs
               in case pdb_file of
                    None \<Rightarrow> Inr (No_structure, fs')
                  | Some pdb \<Rightarrow>
                      (let qual = calculate_plddt_alpha w fs' fname;
                           (k_type, _, prob) = run_topology_analysis_alpha w fs' fname
                       in Inr (Direct \<lparr>quality = qual,
                                        quality_pass = (70 \<le> qual),
                                        knotted_probability = prob,
                                        verdict = (if KNOT_THRESHOLD < prob then KNOT_DETECTED k_type
                                                   else UNKNOTTED)\<rparr>, fs'))))"

subsection \<open>app.py\<close>

definition sanitize_sequence :: "string \<Rightarrow> string" where
  "sanitize_sequence sequence =
     (let sequence1 = map py_upper sequence;
          sequence2 = filter (\<lambda>c. \<not> py_isspace c) sequence1;
          standard_codes = set ''ACDEFGHIKLMNPQRSTVWY''
      in filter (\<lambda>c. c \<in> standard_codes) sequence2)"

text \<open>A row of the result table. The source formats \<open>prob * 100\<close> and the quality with one
  decimal; the row keeps the numbers.\<close>

record app_entry =
  Fragment :: string
  Type :: "string option"
  Probability :: real
  pLDDT :: real
  File :: string

text \<open>The loop over \<open>chunks\<close>: a status other than 200 adds no row, and \<open>except Exception: pass\<close>
  swallows a failed call.\<close>

fun fragment_loop_app ::
  "world \<Rightarrow> string \<Rightarrow> (int \<times> int) list \<Rightarrow> files \<Rightarrow> app_entry list \<Rightarrow> app_entry list \<times> files" where
  "fragment_loop_app w clean_seq [] fs results = (results, fs)"
| "fragment_loop_app w clean_seq ((start, end_index) # rest) fs results =
     (let chunk_id = ''fragment_'' @ str_int (start + 1) @ ''_'' @ str_int end_index;
          filename = chunk_id @ ''.pdb'';
          sub_seq = py_slice clean_seq start end_index
      in case requests_post w sub_seq of
           ConnectionFailed \<Rightarrow> fragment_loop_app w clean_seq rest fs results
         | Response status_code body \<Rightarrow>
             if status_code = 200
             then (let fs' = fs(filename \<mapsto> body);
                       plddt = calculate_plddt_app w fs' filename;
                       (knot_type, prob) = run_topology_analysis_app w fs' filename
                   in fragment_loop_app w clean_seq rest fs'
                        (if KNOT_THRESHOLD < prob
                         then results @
                                [\<lparr>Fragment = str_int (start + 1) @ ''-'' @ str_int end_index,
                                  Type = knot_type, Probability = prob * 100, pLDDT = plddt,
                                  File = filename\<rparr>]
                         else results))
             else fragment_loop_app w clean_seq rest fs results)"

definition run_app :: "world \<Rightarrow> string \<Rightarrow> files \<Rightarrow> py_error \<times> files + app_entry outcome \<times> files" where
  "run_app w sequence_input fs =
     (if sequence_input = [] then Inr (No_input, fs)
      else (let clean_seq = sanitize_sequence sequence_input;
                seq_len = int (length clean_seq)
            in if 400 < seq_len
               then (case chunks seq_len of
                       Inl e \<Rightarrow> Inl (e, fs)
                     | Inr planned \<Rightarrow>
                         (let (results, fs') = fragment_loop_app w clean_seq planned fs []
                          in Inr (if results \<noteq> [] then Knots_detected results
                                  else No_knots_detected, fs')))
               else (let filename = ''analysis_result.pdb''
                     in case requests_post w clean_seq of
                          ConnectionFailed \<Rightarrow> Inr (No_structure, fs)
                        | Response status_code body \<Rightarrow>
                            if status_code = 200
                            then (let fs' = fs(filename \<mapsto> body);
                                      plddt = calculate_plddt_app w fs' filename;
                                      (knot_type, prob) = run_topology_analysis_app w fs' filename
                                  in Inr (Direct \<lparr>quality = plddt,
                                                   quality_pass = (\<not> plddt < MINIMUM_PLDDT),
                                                   knotted_probability = prob,
                                                   verdict = (if KNOT_THRESHOLD < prob
                                                              then KNOT_DETECTED knot_type
                                                              else if prob < 2 / 10 then UNKNOTTED
                                                              else AMBIGUOUS)\<rparr>, fs'))
                            else Inr (No_structure, fs))))"

section \<open>Notions the properties are stated with\<close>

text \<open>The window planner in the words of the specification (section 4.1), for comparison
  with the source's loop: start at the given position; stop, emitting nothing, as soon as
  the start has reached the sequence length or the candidate is shorter than the minimum;
  otherwise emit the candidate and advance by the step. A step that is not positive is
  outside the planner's contract; the definition stops there.\<close>

function spec_windows :: "int \<Rightarrow> int \<Rightarrow> int \<Rightarrow> int \<Rightarrow> int \<Rightarrow> (int \<times> int) list" where
  "spec_windows sequence_length window_size step min_fragment_size start =
     (if step \<le> 0 then []
      else if sequence_length \<le> start
              \<or> min (start + window_size) sequence_length - start < min_fragment_size then []
      else (start, min (start + window_size) sequence_length)
             # spec_windows sequence_length window_size step min_fragment_size (start + step))"
  by pat_completeness auto
termination
  by (relation "measure (\<lambda>(n, ws, step, m, start). nat (n - start))") auto

declare spec_windows.simps [simp del]

text \<open>The rest of the loop body of \<open>run_sliding_window\<close>, run over a given list of ranges:
  slice the fragment, analyse it, and append an entry when it is knotted.\<close>

fun analyze_ranges ::
  "world \<Rightarrow> string \<Rightarrow> (int \<times> int) list \<Rightarrow> files \<Rightarrow> knot_entry list \<Rightarrow> knot_entry list \<times> files" where
  "analyze_ranges w full_sequence [] fs knots_found = (knots_found, fs)"
| "analyze_ranges w full_sequence ((start, end_index) # rest) fs knots_found =
     (let sub_seq = py_slice full_sequence start end_index;
          ((is_knotted, k_type, qual, fname), fs') =
             analyze_chunk w sub_seq (start + 1) end_index fs
      in analyze_ranges w full_sequence rest fs'
           (if is_knotted
            then knots_found @
                   [\<lparr>entry_range = str_int (start + 1) @ ''-'' @ str_int end_index,
                     entry_type = k_type, entry_quality = qual\<rparr>]
            else knots_found))"

text \<open>The number of residues two half-open ranges share.\<close>

definition overlap_len :: "int \<times> int \<Rightarrow> int \<times> int \<Rightarrow> int" where
  "overlap_len a b = max 0 (min (snd a) (snd b) - max (fst a) (fst b))"

text \<open>A structure-prediction call succeeds when it returns with status 200.\<close>

fun succeeded :: "response \<Rightarrow> bool" where
  "succeeded ConnectionFailed = False"
| "succeeded (Response status_code body) = (status_code = 200)"

text \<open>What the topology computation returns on the structure predicted for a sequence, when
  the prediction succeeds. Two worlds with the same \<open>topology_seen\<close> may predict structures
  with any confidence values whatever, and may read them with a different \<open>float\<close>.\<close>

definition topology_seen :: "world \<Rightarrow> string \<Rightarrow> dist option raising option" where
  "topology_seen w s =
     (case requests_post w s of
        ConnectionFailed \<Rightarrow> None
      | Response status_code body \<Rightarrow>
          if status_code = 200 then Some (topoly_alexander w body) else None)"

text \<open>The part of a report entry that says where a knot is and which: everything but the
  quality.\<close>

definition knot_of :: "knot_entry \<Rightarrow> string \<times> string option" where
  "knot_of k = (entry_range k, entry_type k)"

definition row_of :: "app_entry \<Rightarrow> string \<times> string option \<times> real \<times> string" where
  "row_of r = (Fragment r, Type r, Probability r, File r)"

text \<open>The result of \<open>analyze_chunk\<close> without its quality: the flag, the knot type and the
  file name.\<close>

definition decision_of ::
  "bool \<times> string option \<times> real \<times> string option \<Rightarrow> bool \<times> string option \<times> string option" where
  "decision_of res = (fst res, fst (snd res), snd (snd (snd res)))"

subsection \<open>Concrete collaborators\<close>

text \<open>An \<open>ATOM\<close> record whose columns 60 to 66 hold the given text, and a \<open>float\<close> that reads
  the three numerals used below and raises on anything else.\<close>

definition atom_line :: "string \<Rightarrow> string" where
  "atom_line conf = ''ATOM'' @ replicate 56 (CHR '' '') @ conf"

definition float_demo :: "string \<Rightarrow> real option" where
  "float_demo s =
     (if s = ''0.50'' then Some (1 / 2)
      else if s = ''0.90'' then Some (9 / 10)
      else if s = ''85.00'' then Some 85
      else None)"

definition world_demo :: "document \<Rightarrow> dist option raising \<Rightarrow> world" where
  "world_demo body topology =
     \<lparr>requests_post = (\<lambda>s. Response 200 body),
      topoly_alexander = (\<lambda>doc. topology),
      topoly_jones = (\<lambda>doc. Returns None),
      py_float = float_demo\<rparr>"

definition world_jones_raises :: "document \<Rightarrow> dist option raising \<Rightarrow> world" where
  "world_jones_raises body topology =
     \<lparr>requests_post = (\<lambda>s. Response 200 body),
      topoly_alexander = (\<lambda>doc. topology),
      topoly_jones = (\<lambda>doc. Raises),
      py_float = float_demo\<rparr>"

definition world_down :: world where
  "world_down =
     \<lparr>requests_post = (\<lambda>s. if length s = 400 then Response 413 [] else ConnectionFailed),
      topoly_alexander = (\<lambda>doc. Raises),
      topoly_jones = (\<lambda>doc. Raises),
      py_float = float_demo\<rparr>"

section \<open>The window planner\<close>

subsection \<open>The loop, position by position\<close>

lemma window_loop_range_up:
  "0 < step \<Longrightarrow>
   window_loop n ws m (range_up start n step) = spec_windows n ws step m start"
proof (induction start n step rule: range_up.induct)
  case (1 start stop step)
  show ?case
  proof (cases "start < stop")
    case True
    with 1 show ?thesis
      by (subst range_up.simps, subst spec_windows.simps) (simp add: Let_def)
  next
    case False
    with 1 show ?thesis
      by (subst range_up.simps, subst spec_windows.simps) simp
  qed
qed

lemma chunks_cfg_spec:
  "0 < ws - ov \<Longrightarrow> chunks_cfg n ws ov m = Inr (spec_windows n ws (ws - ov) m 0)"
  by (simp add: chunks_cfg_def py_range_def window_loop_range_up)

lemma sliding_loop_plan:
  "sliding_loop w full ws m starts fs acc =
   analyze_ranges w full (window_loop (int (length full)) ws m starts) fs acc"
  by (induction starts arbitrary: fs acc) (simp_all add: Let_def split: prod.splits)

lemma run_sliding_window_cfg_plan:
  "run_sliding_window_cfg w ws ov m full fs =
     (case chunks_cfg (int (length full)) ws ov m of
        Inl e \<Rightarrow> Inl (e, fs)
      | Inr planned \<Rightarrow> Inr (analyze_ranges w full planned fs []))"
  by (simp add: run_sliding_window_cfg_def chunks_cfg_def sliding_loop_plan split: sum.splits)

lemma range_up_nth:
  "0 < step \<Longrightarrow> i < length (range_up a b step) \<Longrightarrow>
   range_up a b step ! i = a + int i * step \<and> a + int i * step < b"
proof (induction a b step arbitrary: i rule: range_up.induct)
  case (1 start stop step)
  from "1.prems"(2) have lt: "start < stop"
    by (subst (asm) range_up.simps) (auto split: if_splits)
  have unf: "range_up start stop step = start # range_up (start + step) stop step"
    using lt "1.prems"(1) by (subst range_up.simps) simp
  show ?case
  proof (cases i)
    case 0
    then show ?thesis using unf lt by simp
  next
    case (Suc j)
    with "1.prems" unf have "j < length (range_up (start + step) stop step)" by simp
    with "1.IH"[of j] lt "1.prems"(1)
    have "range_up (start + step) stop step ! j = start + step + int j * step
          \<and> start + step + int j * step < stop" by simp
    then show ?thesis using unf Suc by (simp add: algebra_simps)
  qed
qed

lemma window_loop_nth:
  "i < length (window_loop n ws m starts) \<Longrightarrow>
   i < length starts \<and>
   window_loop n ws m starts ! i = (starts ! i, min (starts ! i + ws) n) \<and>
   m \<le> min (starts ! i + ws) n - starts ! i"
proof (induction starts arbitrary: i)
  case Nil
  then show ?case by simp
next
  case (Cons s rest)
  then show ?case
    by (cases i) (auto simp: Let_def split: if_splits)
qed

lemma chunks_cfg_nth:
  assumes "0 < ws - ov" "chunks_cfg n ws ov m = Inr rs" "i < length rs"
  shows "rs ! i = (int i * (ws - ov), min (int i * (ws - ov) + ws) n)"
    and "m \<le> min (int i * (ws - ov) + ws) n - int i * (ws - ov)"
    and "int i * (ws - ov) < n"
proof -
  from assms(1,2) have rs: "rs = window_loop n ws m (range_up 0 n (ws - ov))"
    by (simp add: chunks_cfg_def py_range_def)
  from window_loop_nth[of i n ws m "range_up 0 n (ws - ov)"] assms(3) rs
  have a: "i < length (range_up 0 n (ws - ov))"
    and b: "rs ! i = (range_up 0 n (ws - ov) ! i, min (range_up 0 n (ws - ov) ! i + ws) n)"
    and c: "m \<le> min (range_up 0 n (ws - ov) ! i + ws) n - range_up 0 n (ws - ov) ! i"
    by simp_all
  from range_up_nth[OF assms(1) a]
  have d: "range_up 0 n (ws - ov) ! i = int i * (ws - ov)" and e: "int i * (ws - ov) < n"
    by simp_all
  show "rs ! i = (int i * (ws - ov), min (int i * (ws - ov) + ws) n)" using b d by simp
  show "m \<le> min (int i * (ws - ov) + ws) n - int i * (ws - ov)" using c d by simp
  show "int i * (ws - ov) < n" by (rule e)
qed

lemma plan_starts:
  assumes "0 < ws - ov" "chunks_cfg n ws ov m = Inr rs" "Suc i < length rs"
  shows "fst (rs ! Suc i) = fst (rs ! i) + (ws - ov)"
proof -
  have "i < length rs" using assms(3) by simp
  from chunks_cfg_nth(1)[OF assms(1,2) this] chunks_cfg_nth(1)[OF assms]
  show ?thesis by (simp add: algebra_simps)
qed

lemma plan_bounds:
  assumes "0 < ws - ov" "chunks_cfg n ws ov m = Inr rs" "i < length rs"
  shows "snd (rs ! i) \<le> n \<and> m \<le> snd (rs ! i) - fst (rs ! i) \<and> snd (rs ! i) - fst (rs ! i) \<le> ws"
  using chunks_cfg_nth[OF assms] by simp

lemma plan_overlap:
  assumes "0 < ov" "ov < ws" "chunks_cfg n ws ov m = Inr rs" "Suc i < length rs"
  shows "(overlap_len (rs ! i) (rs ! Suc i) = ov) = (snd (rs ! i) - fst (rs ! i) = ws)"
proof -
  have step: "0 < ws - ov" using assms(2) by simp
  have i: "i < length rs" using assms(4) by simp
  define a where "a = int i * (ws - ov)"
  have r0: "rs ! i = (a, min (a + ws) n)"
    using chunks_cfg_nth(1)[OF step assms(3) i] by (simp add: a_def)
  have r1: "rs ! Suc i = (a + (ws - ov), min (a + (ws - ov) + ws) n)"
    using chunks_cfg_nth(1)[OF step assms(3,4)] by (simp add: a_def algebra_simps)
  have lt: "a + (ws - ov) < n"
    using chunks_cfg_nth(3)[OF step assms(3,4)] by (simp add: a_def algebra_simps)
  show ?thesis
    using assms(1,2) lt unfolding r0 r1 overlap_len_def by (auto simp: min_def max_def)
qed

lemma plan_overlap_inner:
  assumes "0 < ov" "2 * ov \<le> ws" "chunks_cfg n ws ov m = Inr rs" "Suc (Suc i) < length rs"
  shows "overlap_len (rs ! i) (rs ! Suc i) = ov"
proof -
  have lt: "ov < ws" and step: "0 < ws - ov" using assms(1,2) by simp_all
  have i: "i < length rs" and i1: "Suc i < length rs" using assms(4) by simp_all
  define a where "a = int i * (ws - ov)"
  have r0: "rs ! i = (a, min (a + ws) n)"
    using chunks_cfg_nth(1)[OF step assms(3) i] by (simp add: a_def)
  have "a + 2 * (ws - ov) < n"
    using chunks_cfg_nth(3)[OF step assms(3,4)] by (simp add: a_def algebra_simps)
  with assms(2) have "a + ws \<le> n" by simp
  with r0 have "snd (rs ! i) - fst (rs ! i) = ws" by simp
  with plan_overlap[OF assms(1) lt assms(3) i1] show ?thesis by simp
qed

text \<open>
  Claim C1. For every sequence length, window size, overlap and minimum fragment size with
  a positive step, the source's loop emits exactly the ranges of the specification's
  algorithm: \<open>chunks_cfg\<close>, the list app.py builds, equals \<open>spec_windows\<close> from position 0, and
  \<open>run_sliding_window\<close> of alpha\_lookup.py analyses exactly these ranges, in this order. At
  length 1000 with window 400, overlap 200 and minimum 50 the ranges are \<open>[0,400)\<close>,
  \<open>[200,600)\<close>, \<open>[400,800)\<close>, \<open>[600,1000)\<close>, \<open>[800,1000)\<close>.
\<close>

theorem planner_refines_spec:
  assumes "0 < window_size - overlap"
  shows "chunks_cfg sequence_length window_size overlap min_fragment_size
           = Inr (spec_windows sequence_length window_size (window_size - overlap)
                    min_fragment_size 0)
       \<and> run_sliding_window_cfg w window_size overlap min_fragment_size full_sequence fs
           = Inr (analyze_ranges w full_sequence
                    (spec_windows (int (length full_sequence)) window_size
                       (window_size - overlap) min_fragment_size 0) fs [])
       \<and> chunks 1000 = Inr [(0, 400), (200, 600), (400, 800), (600, 1000), (800, 1000)]
       \<and> spec_windows 1000 400 200 50 0
           = [(0, 400), (200, 600), (400, 800), (600, 1000), (800, 1000)]"
proof -
  have a: "chunks_cfg sequence_length window_size overlap min_fragment_size
           = Inr (spec_windows sequence_length window_size (window_size - overlap)
                    min_fragment_size 0)"
    using assms by (rule chunks_cfg_spec)
  have b: "run_sliding_window_cfg w window_size overlap min_fragment_size full_sequence fs
           = Inr (analyze_ranges w full_sequence
                    (spec_windows (int (length full_sequence)) window_size
                       (window_size - overlap) min_fragment_size 0) fs [])"
    using assms by (simp add: run_sliding_window_cfg_plan chunks_cfg_spec)
  have c: "chunks 1000 = Inr [(0, 400), (200, 600), (400, 800), (600, 1000), (800, 1000)]"
    by (simp add: chunks_def chunks_cfg_def py_range_def range_up.simps WINDOW_SIZE_def
        OVERLAP_def)
  have d: "spec_windows 1000 400 200 50 0
           = [(0, 400), (200, 600), (400, 800), (600, 1000), (800, 1000)]"
    by (simp add: spec_windows.simps)
  from a b c d show ?thesis by blast
qed

theorem planner_refines_spec_witness:
  "chunks_cfg 1000 400 200 50 = Inr (spec_windows 1000 400 200 50 0)
   \<and> chunks_cfg 430 400 200 50 = Inr [(0, 400), (200, 430)]
   \<and> spec_windows 430 400 200 50 0 = [(0, 400), (200, 430)]"
proof -
  have "(0::int) < 400 - 200" by simp
  from planner_refines_spec[OF this, of 1000 50] planner_refines_spec[OF this, of 430 50]
  show ?thesis by (simp add: spec_windows.simps)
qed

text \<open>
  Claim C6, as amended. For \<open>0 < overlap < window_size\<close>: consecutive starts differ by exactly
  the step, so they increase strictly; no range ends beyond the sequence length; every
  range, the last included, has at least the minimum length and at most the window size;
  two consecutive ranges share exactly \<open>overlap\<close> residues if and only if the earlier one is
  a full window; and when \<open>2 * overlap \<le> window_size\<close>, as with the constants 400 and 200,
  every consecutive pair but the last shares exactly \<open>overlap\<close> residues.

  The claim as stated excepts only the final range. With an overlap above half the window
  several ranges at the tail are cut at the sequence length, and a pair of them that does
  not involve the final range shares fewer residues: at length 1000, window 400, overlap
  300 the ranges \<open>[700,1000)\<close> and \<open>[800,1000)\<close> share 200, and \<open>[900,1000)\<close> follows them.
\<close>

theorem window_plan_invariants:
  assumes "0 < overlap" "overlap < window_size"
    and "chunks_cfg sequence_length window_size overlap min_fragment_size = Inr rs"
  shows "(\<forall>i. Suc i < length rs \<longrightarrow>
            fst (rs ! Suc i) = fst (rs ! i) + (window_size - overlap)
            \<and> fst (rs ! i) < fst (rs ! Suc i))
       \<and> (\<forall>i. i < length rs \<longrightarrow>
            snd (rs ! i) \<le> sequence_length
            \<and> min_fragment_size \<le> snd (rs ! i) - fst (rs ! i)
            \<and> snd (rs ! i) - fst (rs ! i) \<le> window_size)
       \<and> (\<forall>i. Suc i < length rs \<longrightarrow>
            (overlap_len (rs ! i) (rs ! Suc i) = overlap)
              = (snd (rs ! i) - fst (rs ! i) = window_size))
       \<and> (2 * overlap \<le> window_size \<longrightarrow>
            (\<forall>i. Suc (Suc i) < length rs \<longrightarrow> overlap_len (rs ! i) (rs ! Suc i) = overlap))"
proof -
  have step: "0 < window_size - overlap" using assms(2) by simp
  have a: "\<forall>i. Suc i < length rs \<longrightarrow>
            fst (rs ! Suc i) = fst (rs ! i) + (window_size - overlap)
            \<and> fst (rs ! i) < fst (rs ! Suc i)"
    using plan_starts[OF step assms(3)] step by auto
  have b: "\<forall>i. i < length rs \<longrightarrow>
            snd (rs ! i) \<le> sequence_length
            \<and> min_fragment_size \<le> snd (rs ! i) - fst (rs ! i)
            \<and> snd (rs ! i) - fst (rs ! i) \<le> window_size"
    using plan_bounds[OF step assms(3)] by blast
  have c: "\<forall>i. Suc i < length rs \<longrightarrow>
            (overlap_len (rs ! i) (rs ! Suc i) = overlap)
              = (snd (rs ! i) - fst (rs ! i) = window_size)"
    using plan_overlap[OF assms] by blast
  have d: "2 * overlap \<le> window_size \<longrightarrow>
            (\<forall>i. Suc (Suc i) < length rs \<longrightarrow> overlap_len (rs ! i) (rs ! Suc i) = overlap)"
    using plan_overlap_inner[OF assms(1) _ assms(3)] by blast
  from a b c d show ?thesis by blast
qed

theorem window_plan_invariants_witness:
  "chunks 950 = Inr [(0, 400), (200, 600), (400, 800), (600, 950), (800, 950)]
   \<and> overlap_len (400, 800) (600, 950) = 200
   \<and> overlap_len (600, 950) (800, 950) = 150"
proof -
  have h: "chunks_cfg 950 400 200 50 = Inr [(0, 400), (200, 600), (400, 800), (600, 950), (800, 950)]"
    by (simp add: chunks_cfg_def py_range_def range_up.simps)
  have "(0::int) < 200" "(200::int) < 400" by simp_all
  from window_plan_invariants[OF this h] h
  show ?thesis
    by (simp add: chunks_def WINDOW_SIZE_def OVERLAP_def overlap_len_def)
qed

theorem overlap_counterexample:
  "chunks_cfg 1000 400 300 50 =
     Inr [(0, 400), (100, 500), (200, 600), (300, 700), (400, 800), (500, 900),
          (600, 1000), (700, 1000), (800, 1000), (900, 1000)]
   \<and> overlap_len (700, 1000) (800, 1000) = 200
   \<and> overlap_len (700, 1000) (800, 1000) \<noteq> 300"
  by (simp add: chunks_cfg_def py_range_def range_up.simps overlap_len_def)

lemma range_down_empty: "0 \<le> n \<Longrightarrow> range_down 0 n step = []"
  by (subst range_down.simps) simp

text \<open>
  Claim C7, as amended. When the step \<open>window_size - overlap\<close> is zero, \<open>range\<close> raises
  \<open>ValueError\<close> before the loop is entered: planning fails, and the error leaves the run
  with the file store exactly as the run found it, in every world, also one in which every
  prediction would succeed and write its file. So the error is raised before any fragment
  analysis is attempted. When the step is negative (and the length is not), nothing is
  raised: \<open>range\<close> is empty, no range is planned, no fragment is analysed and the run returns
  an empty list of knots with the store untouched. In general the run analyses exactly the
  planned ranges, and none when planning fails.

  The claim as stated promises an error for every non-positive step; at window 200 and
  overlap 400 the planner returns the empty plan instead.
\<close>

theorem nonpositive_step:
  "(window_size - overlap = 0 \<longrightarrow>
      chunks_cfg sequence_length window_size overlap min_fragment_size = Inl ValueError
      \<and> run_sliding_window_cfg w window_size overlap min_fragment_size full_sequence fs
          = Inl (ValueError, fs))
   \<and> (window_size - overlap < 0 \<and> 0 \<le> sequence_length \<longrightarrow>
      chunks_cfg sequence_length window_size overlap min_fragment_size = Inr []
      \<and> run_sliding_window_cfg w window_size overlap min_fragment_size full_sequence fs
          = Inr ([], fs))
   \<and> run_sliding_window_cfg w window_size overlap min_fragment_size full_sequence fs
        = (case chunks_cfg (int (length full_sequence)) window_size overlap min_fragment_size of
             Inl e \<Rightarrow> Inl (e, fs)
           | Inr planned \<Rightarrow> Inr (analyze_ranges w full_sequence planned fs []))"
proof -
  have a: "window_size - overlap = 0 \<longrightarrow>
      chunks_cfg sequence_length window_size overlap min_fragment_size = Inl ValueError
      \<and> run_sliding_window_cfg w window_size overlap min_fragment_size full_sequence fs
          = Inl (ValueError, fs)"
    by (simp add: chunks_cfg_def run_sliding_window_cfg_def py_range_def)
  have b: "window_size - overlap < 0 \<and> 0 \<le> sequence_length \<longrightarrow>
      chunks_cfg sequence_length window_size overlap min_fragment_size = Inr []
      \<and> run_sliding_window_cfg w window_size overlap min_fragment_size full_sequence fs
          = Inr ([], fs)"
    by (simp add: chunks_cfg_def run_sliding_window_cfg_def py_range_def range_down_empty)
  have c: "run_sliding_window_cfg w window_size overlap min_fragment_size full_sequence fs
        = (case chunks_cfg (int (length full_sequence)) window_size overlap min_fragment_size of
             Inl e \<Rightarrow> Inl (e, fs)
           | Inr planned \<Rightarrow> Inr (analyze_ranges w full_sequence planned fs []))"
    by (rule run_sliding_window_cfg_plan)
  from a b c show ?thesis by blast
qed

text \<open>The world of the witness answers every prediction with status 200 and a knotted
  structure, so a single analysed fragment would have left its file in the store.\<close>

theorem nonpositive_step_witness:
  "chunks_cfg 1000 400 400 50 = Inl ValueError
   \<and> run_sliding_window_cfg
        (world_demo [atom_line ''  0.90''] (Returns (Some [(''0_1'', 1 / 10), (''3_1'', 9 / 10)])))
        400 400 50 (replicate 1000 (CHR ''A'')) Map.empty
       = Inl (ValueError, Map.empty)
   \<and> chunks_cfg 1000 200 400 50 = Inr []
   \<and> run_sliding_window_cfg
        (world_demo [atom_line ''  0.90''] (Returns (Some [(''0_1'', 1 / 10), (''3_1'', 9 / 10)])))
        200 400 50 (replicate 1000 (CHR ''A'')) Map.empty
       = Inr ([], Map.empty)"
  using nonpositive_step[where window_size = 400 and overlap = 400 and sequence_length = 1000
          and min_fragment_size = 50 and full_sequence = "replicate 1000 (CHR ''A'')"
          and fs = Map.empty
          and w = "world_demo [atom_line ''  0.90'']
                     (Returns (Some [(''0_1'', 1 / 10), (''3_1'', 9 / 10)]))"]
        nonpositive_step[where window_size = 200 and overlap = 400 and sequence_length = 1000
          and min_fragment_size = 50 and full_sequence = "replicate 1000 (CHR ''A'')"
          and fs = Map.empty
          and w = "world_demo [atom_line ''  0.90'']
                     (Returns (Some [(''0_1'', 1 / 10), (''3_1'', 9 / 10)]))"]
  by simp

theorem nonpositive_step_counterexample:
  "chunks_cfg 1000 200 400 50 = Inr []
   \<and> run_sliding_window_cfg world_down 200 400 50 (replicate 1000 (CHR ''A'')) Map.empty
       = Inr ([], Map.empty)"
  by (simp add: chunks_cfg_def run_sliding_window_cfg_def py_range_def range_down.simps)

section \<open>Quality assessment\<close>

lemma plddt_values_empty_iff:
  "(plddt_values w doc = []) =
   (\<forall>line \<in> set doc. startswith line ''ATOM'' \<longrightarrow>
        py_float w (py_strip (py_slice line 60 66)) = None)"
  by (induction doc) (auto simp: plddt_values_def map_filter_simps split: option.splits)

lemma calculate_plddt_alpha_mean:
  assumes "fs pdb_path = Some doc" "plddt_values w doc \<noteq> []"
  shows "calculate_plddt_alpha w fs pdb_path =
           (if np_mean (plddt_values w doc) \<le> 1 then np_mean (plddt_values w doc) * 100
            else np_mean (plddt_values w doc))"
  using assms by (simp add: calculate_plddt_alpha_def Let_def)

lemma calculate_plddt_pipeline_mean:
  assumes "fs pdb_path = Some doc" "plddt_values w doc \<noteq> []"
  shows "calculate_plddt_pipeline w fs pdb_path =
           (if np_mean (plddt_values w doc) \<le> 1 then np_mean (plddt_values w doc) * 100
            else np_mean (plddt_values w doc))"
  using assms by (simp add: calculate_plddt_pipeline_def Let_def)

lemma calculate_plddt_app_mean:
  assumes "fs pdb_path = Some doc" "plddt_values w doc \<noteq> []"
  shows "calculate_plddt_app w fs pdb_path = np_mean (plddt_values w doc)"
  using assms by (simp add: calculate_plddt_app_def Let_def)

lemma atom_line_values:
  "plddt_values (world_demo body t) [atom_line ''  0.50''] = [1 / 2]"
  by (simp add: plddt_values_def map_filter_simps atom_line_def startswith_def py_slice_def
      slice_index_def py_strip_def py_isspace_def world_demo_def float_demo_def)

text \<open>
  Claim C2. \<open>calculate_plddt\<close> of the pipeline and of alpha\_lookup.py return the mean times
  100 when the mean is at most 1 and the mean itself otherwise (the three lemmas above).
  \<open>calculate_plddt\<close> of app.py returns the mean itself in both cases: on a structure whose
  single \<open>ATOM\<close> record carries the confidence 0.50 it returns 0.5, where the other two
  return 50.
\<close>

theorem app_quality_unscaled:
  "plddt_values (world_demo [] Raises) [atom_line ''  0.50''] = [1 / 2]
   \<and> np_mean [1 / 2] = 1 / 2
   \<and> calculate_plddt_app (world_demo [] Raises) [''s.pdb'' \<mapsto> [atom_line ''  0.50'']] ''s.pdb''
       = 1 / 2
   \<and> calculate_plddt_alpha (world_demo [] Raises) [''s.pdb'' \<mapsto> [atom_line ''  0.50'']] ''s.pdb''
       = 50
   \<and> calculate_plddt_pipeline (world_demo [] Raises) [''s.pdb'' \<mapsto> [atom_line ''  0.50'']] ''s.pdb''
       = 50"
  by (simp add: calculate_plddt_app_def calculate_plddt_alpha_def calculate_plddt_pipeline_def
      atom_line_values np_mean_def)

text \<open>
  Claim C9. On a structure document in which no \<open>ATOM\<close> record yields a float in columns 60
  to 66, \<open>calculate_plddt\<close> of the pipeline returns 100, and \<open>calculate_plddt\<close> of
  alpha\_lookup.py and of app.py each return 0: the variants do not agree on the default.
\<close>

theorem empty_quality_defaults:
  assumes "fs pdb_path = Some doc"
    and "\<forall>line \<in> set doc. startswith line ''ATOM'' \<longrightarrow>
            py_float w (py_strip (py_slice line 60 66)) = None"
  shows "calculate_plddt_pipeline w fs pdb_path = 100
       \<and> calculate_plddt_alpha w fs pdb_path = 0
       \<and> calculate_plddt_app w fs pdb_path = 0
       \<and> calculate_plddt_pipeline w fs pdb_path \<noteq> calculate_plddt_alpha w fs pdb_path"
proof -
  from assms(2) have "plddt_values w doc = []" by (simp add: plddt_values_empty_iff)
  with assms(1) show ?thesis
    by (simp add: calculate_plddt_pipeline_def calculate_plddt_alpha_def calculate_plddt_app_def)
qed

theorem empty_quality_defaults_witness:
  "calculate_plddt_pipeline (world_demo [] Raises)
      [''s.pdb'' \<mapsto> [''HEADER'', atom_line ''   n/a'', ''ATOM'']] ''s.pdb'' = 100
   \<and> calculate_plddt_alpha (world_demo [] Raises)
      [''s.pdb'' \<mapsto> [''HEADER'', atom_line ''   n/a'', ''ATOM'']] ''s.pdb'' = 0
   \<and> calculate_plddt_app (world_demo [] Raises)
      [''s.pdb'' \<mapsto> [''HEADER'', atom_line ''   n/a'', ''ATOM'']] ''s.pdb'' = 0"
proof -
  let ?doc = "[''HEADER'', atom_line ''   n/a'', ''ATOM'']"
  let ?fs = "[''s.pdb'' \<mapsto> ?doc]"
  have a: "?fs ''s.pdb'' = Some ?doc" by simp
  have b: "\<forall>line \<in> set ?doc. startswith line ''ATOM'' \<longrightarrow>
            py_float (world_demo [] Raises) (py_strip (py_slice line 60 66)) = None"
    by (simp add: atom_line_def startswith_def py_slice_def slice_index_def py_strip_def
        py_isspace_def world_demo_def float_demo_def)
  from empty_quality_defaults[where fs = ?fs and doc = ?doc, OF a b] show ?thesis by simp
qed

section \<open>Topology classification\<close>

lemma max_from_argmax:
  "max_from key best xs \<in> insert best (set xs)
   \<and> (\<forall>x \<in> insert best (set xs). key x \<le> key (max_from key best xs))"
proof (induction xs arbitrary: best)
  case Nil
  then show ?case by simp
next
  case (Cons x xs)
  let ?b = "if key best < key x then x else best"
  from Cons.IH[of ?b]
  have mem: "max_from key ?b xs \<in> insert ?b (set xs)"
    and le: "\<forall>y \<in> insert ?b (set xs). key y \<le> key (max_from key ?b xs)" by simp_all
  from le have "key ?b \<le> key (max_from key ?b xs)" by simp
  then have "key best \<le> key (max_from key ?b xs)" "key x \<le> key (max_from key ?b xs)"
    by (auto split: if_splits)
  with mem le show ?case by (auto split: if_splits)
qed

lemma py_max_key_argmax:
  assumes "d \<noteq> []"
  shows "\<exists>k. py_max_key d = Some k \<and> k \<in> fst ` set d
             \<and> (\<forall>k' \<in> fst ` set d. dict_get d k' 0 \<le> dict_get d k 0)"
proof -
  from assms obtain p ps where d: "d = p # ps" by (cases d) auto
  let ?key = "\<lambda>k. dict_get d k 0"
  let ?k = "max_from ?key (fst p) (map fst ps)"
  have "py_max_key d = Some ?k" using d by (simp add: py_max_key_def)
  moreover from max_from_argmax[of ?key "fst p" "map fst ps"]
  have "?k \<in> fst ` set d" "\<forall>k' \<in> fst ` set d. ?key k' \<le> ?key ?k"
    using d by auto
  ultimately show ?thesis by blast
qed

lemma topology_nonempty:
  assumes "alexander_at w fs p = Returns (Some d)" "d \<noteq> []"
  shows "\<exists>k. k \<in> fst ` set d \<and> (\<forall>k' \<in> fst ` set d. dict_get d k' 0 \<le> dict_get d k 0)
          \<and> run_topology_analysis_alpha w fs p = (Some k, 0, 1 - dict_get d ''0_1'' 0)
          \<and> run_topology_analysis_app w fs p = (Some k, 1 - dict_get d ''0_1'' 0)
          \<and> (jones_at w fs p \<noteq> Raises \<longrightarrow>
               run_topology_analysis_pipeline w fs p
                 = (Some k, dict_get d k 0, 1 - dict_get d ''0_1'' 0))"
proof -
  from py_max_key_argmax[OF assms(2)] obtain k where
    k: "py_max_key d = Some k" "k \<in> fst ` set d"
       "\<forall>k' \<in> fst ` set d. dict_get d k' 0 \<le> dict_get d k 0" by blast
  have a: "run_topology_analysis_alpha w fs p = (Some k, 0, 1 - dict_get d ''0_1'' 0)"
    using assms k(1) by (simp add: run_topology_analysis_alpha_def)
  have b: "run_topology_analysis_app w fs p = (Some k, 1 - dict_get d ''0_1'' 0)"
    using assms k(1) by (simp add: run_topology_analysis_app_def)
  have c: "jones_at w fs p \<noteq> Raises \<longrightarrow>
               run_topology_analysis_pipeline w fs p
                 = (Some k, dict_get d k 0, 1 - dict_get d ''0_1'' 0)"
    using assms k(1) by (simp add: run_topology_analysis_pipeline_def split: raising.splits)
  from k(2,3) a b c show ?thesis by blast
qed

lemma topology_example:
  assumes "alexander_at w fs p = Returns (Some [(''0_1'', 7 / 10), (''3_1'', 3 / 10)])"
  shows "run_topology_analysis_alpha w fs p = (Some ''0_1'', 0, 3 / 10)
       \<and> run_topology_analysis_app w fs p = (Some ''0_1'', 3 / 10)
       \<and> (jones_at w fs p \<noteq> Raises \<longrightarrow>
            run_topology_analysis_pipeline w fs p = (Some ''0_1'', 7 / 10, 3 / 10))"
  using assms
  by (simp add: run_topology_analysis_alpha_def run_topology_analysis_app_def
      run_topology_analysis_pipeline_def py_max_key_def dict_get_def split: raising.splits)

lemma topology_default:
  assumes "alexander_at w fs p = Returns None \<or> alexander_at w fs p = Returns (Some [])"
  shows "run_topology_analysis_alpha w fs p = (Some ''0_1'', 0, 0)
       \<and> run_topology_analysis_app w fs p = (Some ''0_1'', 0)
       \<and> (jones_at w fs p \<noteq> Raises \<longrightarrow>
            run_topology_analysis_pipeline w fs p = (Some ''0_1'', 0, 0))"
  using assms
  by (auto simp: run_topology_analysis_alpha_def run_topology_analysis_app_def
      run_topology_analysis_pipeline_def split: raising.splits)

lemma topology_jones_raises:
  assumes "jones_at w fs p = Raises"
  shows "run_topology_analysis_pipeline w fs p = (None, 0, 0)"
  using assms by (simp add: run_topology_analysis_pipeline_def split: raising.splits)

text \<open>
  Claim C4, as amended. When the Alexander computation returns a non-empty distribution, the
  classifier of alpha\_lookup.py and of app.py returns as dominant type a label of the
  distribution whose probability no other label exceeds, and as knotted probability 1 minus
  the probability of \<open>0_1\<close> (taken as 0 when the label is absent); on \<open>{0_1: 0.7, 3_1: 0.3}\<close>
  it returns \<open>0_1\<close> and 0.3; when the computation returns nothing or an empty distribution,
  it returns \<open>0_1\<close> with knotted probability 0. The classifier of the pipeline does the same
  when its additional call of \<open>topoly.jones\<close> returns; when that call raises, it returns
  \<open>(None, 0, 0)\<close>, whatever the Alexander computation returned.

  The claim as stated covers the pipeline without that condition. The pipeline calls
  \<open>topoly.jones\<close> inside the same \<open>try\<close>, after the Alexander call and before it reads the
  distribution; if the call raises on \<open>{0_1: 0.7, 3_1: 0.3}\<close>, the result is \<open>(None, 0, 0)\<close>,
  not \<open>0_1\<close> with 0.3.
\<close>

theorem topology_classifier:
  "(alexander_at w fs p = Returns (Some d) \<and> d \<noteq> [] \<longrightarrow>
      (\<exists>k. k \<in> fst ` set d \<and> (\<forall>k' \<in> fst ` set d. dict_get d k' 0 \<le> dict_get d k 0)
          \<and> run_topology_analysis_alpha w fs p = (Some k, 0, 1 - dict_get d ''0_1'' 0)
          \<and> run_topology_analysis_app w fs p = (Some k, 1 - dict_get d ''0_1'' 0)
          \<and> (jones_at w fs p \<noteq> Raises \<longrightarrow>
               run_topology_analysis_pipeline w fs p
                 = (Some k, dict_get d k 0, 1 - dict_get d ''0_1'' 0))))
   \<and> (alexander_at w fs p = Returns (Some [(''0_1'', 7 / 10), (''3_1'', 3 / 10)]) \<longrightarrow>
        run_topology_analysis_alpha w fs p = (Some ''0_1'', 0, 3 / 10)
        \<and> run_topology_analysis_app w fs p = (Some ''0_1'', 3 / 10)
        \<and> (jones_at w fs p \<noteq> Raises \<longrightarrow>
             run_topology_analysis_pipeline w fs p = (Some ''0_1'', 7 / 10, 3 / 10)))
   \<and> (alexander_at w fs p = Returns None \<or> alexander_at w fs p = Returns (Some []) \<longrightarrow>
        run_topology_analysis_alpha w fs p = (Some ''0_1'', 0, 0)
        \<and> run_topology_analysis_app w fs p = (Some ''0_1'', 0)
        \<and> (jones_at w fs p \<noteq> Raises \<longrightarrow>
             run_topology_analysis_pipeline w fs p = (Some ''0_1'', 0, 0)))
   \<and> (jones_at w fs p = Raises \<longrightarrow> run_topology_analysis_pipeline w fs p = (None, 0, 0))"
  using topology_nonempty[of w fs p d] topology_example[of w fs p] topology_default[of w fs p]
        topology_jones_raises[of w fs p]
  by blast

theorem topology_classifier_witness:
  "run_topology_analysis_alpha
     (world_demo [] (Returns (Some [(''0_1'', 7 / 10), (''3_1'', 3 / 10)])))
     [''s.pdb'' \<mapsto> []] ''s.pdb'' = (Some ''0_1'', 0, 3 / 10)
   \<and> run_topology_analysis_pipeline
     (world_demo [] (Returns (Some [(''0_1'', 7 / 10), (''3_1'', 3 / 10)])))
     [''s.pdb'' \<mapsto> []] ''s.pdb'' = (Some ''0_1'', 7 / 10, 3 / 10)
   \<and> run_topology_analysis_app (world_demo [] (Returns (Some []))) [''s.pdb'' \<mapsto> []] ''s.pdb''
       = (Some ''0_1'', 0)
   \<and> run_topology_analysis_pipeline
     (world_jones_raises [] (Returns (Some [(''0_1'', 1 / 4), (''3_1'', 3 / 4)])))
     [''s.pdb'' \<mapsto> []] ''s.pdb'' = (None, 0, 0)
   \<and> run_topology_analysis_app
     (world_jones_raises [] (Returns (Some [(''0_1'', 1 / 4), (''3_1'', 3 / 4)])))
     [''s.pdb'' \<mapsto> []] ''s.pdb'' = (Some ''3_1'', 3 / 4)"
proof -
  let ?d = "[(''0_1'', 7 / 10), (''3_1'', 3 / 10)] :: dist"
  let ?w = "world_demo [] (Returns (Some ?d))"
  let ?fs = "[''s.pdb'' \<mapsto> []] :: files"
  let ?d' = "[(''0_1'', 1 / 4), (''3_1'', 3 / 4)] :: dist"
  let ?w' = "world_jones_raises [] (Returns (Some ?d'))"
  have a: "alexander_at ?w ?fs ''s.pdb'' = Returns (Some ?d)"
    by (simp add: alexander_at_def world_demo_def)
  have j: "jones_at ?w ?fs ''s.pdb'' \<noteq> Raises"
    by (simp add: jones_at_def world_demo_def)
  have e: "alexander_at (world_demo [] (Returns (Some []))) ?fs ''s.pdb'' = Returns (Some [])"
    by (simp add: alexander_at_def world_demo_def)
  have a': "alexander_at ?w' ?fs ''s.pdb'' = Returns (Some ?d')"
    by (simp add: alexander_at_def world_jones_raises_def)
  have j': "jones_at ?w' ?fs ''s.pdb'' = Raises"
    by (simp add: jones_at_def world_jones_raises_def)
  have ne: "?d' \<noteq> []" by simp
  from topology_classifier[of ?w' ?fs "''s.pdb''" ?d'] a' ne
  obtain k where k: "k \<in> fst ` set ?d'" "\<forall>k' \<in> fst ` set ?d'. dict_get ?d' k' 0 \<le> dict_get ?d' k 0"
    "run_topology_analysis_app ?w' ?fs ''s.pdb'' = (Some k, 1 - dict_get ?d' ''0_1'' 0)"
    by blast
  from k(1,2) have "k = ''3_1''" by (auto simp: dict_get_def)
  with k(3) have app': "run_topology_analysis_app ?w' ?fs ''s.pdb'' = (Some ''3_1'', 3 / 4)"
    by (simp add: dict_get_def)
  from topology_classifier[of ?w' ?fs "''s.pdb''" ?d'] j'
  have pipe': "run_topology_analysis_pipeline ?w' ?fs ''s.pdb'' = (None, 0, 0)" by blast
  from topology_classifier[of ?w ?fs "''s.pdb''" ?d] a j
       topology_classifier[of "world_demo [] (Returns (Some []))" ?fs "''s.pdb''" ?d] e
       app' pipe'
  show ?thesis by simp
qed

theorem topology_classifier_counterexample:
  "alexander_at (world_jones_raises [] (Returns (Some [(''0_1'', 7 / 10), (''3_1'', 3 / 10)])))
     [''s.pdb'' \<mapsto> []] ''s.pdb''
     = Returns (Some [(''0_1'', 7 / 10), (''3_1'', 3 / 10)])
   \<and> run_topology_analysis_pipeline
       (world_jones_raises [] (Returns (Some [(''0_1'', 7 / 10), (''3_1'', 3 / 10)])))
       [''s.pdb'' \<mapsto> []] ''s.pdb''
     = (None, 0, 0)
   \<and> run_topology_analysis_pipeline
       (world_jones_raises [] (Returns (Some [(''0_1'', 7 / 10), (''3_1'', 3 / 10)])))
       [''s.pdb'' \<mapsto> []] ''s.pdb''
     \<noteq> (Some ''0_1'', 7 / 10, 3 / 10)"
  by (simp add: run_topology_analysis_pipeline_def alexander_at_def jones_at_def
      world_jones_raises_def)

section \<open>Fragment analysis\<close>

subsection \<open>The collaborators of the examples\<close>

lemma str_int_1: "str_int 1 = ''1''" by code_simp
lemma str_int_3: "str_int 3 = ''3''" by code_simp
lemma str_int_60: "str_int 60 = ''60''" by code_simp

lemma chunks_401: "chunks 401 = Inr [(0, 400), (200, 401)]"
  by (simp add: chunks_def chunks_cfg_def py_range_def range_up.simps WINDOW_SIZE_def
      OVERLAP_def)

lemma strip_As: "py_strip (replicate n (CHR ''A'')) = replicate n (CHR ''A'')"
  by (simp add: py_strip_def py_isspace_def)

lemma clean_As: "clean_whitespace (replicate n (CHR ''A'')) = replicate n (CHR ''A'')"
  by (simp add: clean_whitespace_def strip_As)

lemma sanitize_As: "sanitize_sequence (replicate n (CHR ''A'')) = replicate n (CHR ''A'')"
  by (simp add: sanitize_sequence_def py_upper_def py_isspace_def)

lemma strip_MKV: "py_strip ''MKV'' = ''MKV''"
  by (simp add: py_strip_def py_isspace_def)

lemma clean_MKV: "clean_whitespace ''MKV'' = ''MKV''"
  by (simp add: clean_whitespace_def strip_MKV)

lemma atom_line_90:
  "plddt_values (world_demo body t) [atom_line ''  0.90''] = [9 / 10]"
  by (simp add: plddt_values_def map_filter_simps atom_line_def startswith_def py_slice_def
      slice_index_def py_strip_def py_isspace_def world_demo_def float_demo_def)

lemma demo_retrieve:
  "retrieve_structure_alpha (world_demo body t) ''MKV'' name fs = (Some name, fs(name \<mapsto> body))"
  by (simp add: retrieve_structure_alpha_def world_demo_def)

lemma demo_topology_alpha:
  "run_topology_analysis_alpha (world_demo body (Returns (Some [(''0_1'', p), (''3_1'', q)])))
     (fs(name \<mapsto> doc)) name
   = (Some (if p < q then ''3_1'' else ''0_1''), 0, 1 - p)"
  by (simp add: run_topology_analysis_alpha_def alexander_at_def world_demo_def dict_get_def
      py_max_key_def)

lemma demo_quality_alpha_90:
  "calculate_plddt_alpha (world_demo body t) (fs(name \<mapsto> [atom_line ''  0.90''])) name = 90"
  by (simp add: calculate_plddt_alpha_def atom_line_90 np_mean_def)

lemma demo_main_pipeline:
  "main_pipeline (world_demo [atom_line ''  0.90''] (Returns (Some [(''0_1'', 7 / 10), (''3_1'', 3 / 10)])))
     ''MKV'' Map.empty
   = (Direct \<lparr>quality = 90, quality_pass = True, knotted_probability = 3 / 10,
               verdict = AMBIGUOUS\<rparr>,
      [''analysis_result.pdb'' \<mapsto> [atom_line ''  0.90'']])"
proof -
  let ?w = "world_demo [atom_line ''  0.90''] (Returns (Some [(''0_1'', 7 / 10), (''3_1'', 3 / 10)]))"
  let ?fs = "[''analysis_result.pdb'' \<mapsto> [atom_line ''  0.90'']] :: files"
  have r: "retrieve_structure_pipeline ?w ''MKV'' ''analysis_result'' Map.empty
             = (Some ''analysis_result.pdb'', ?fs)"
    by (simp add: retrieve_structure_pipeline_def clean_MKV world_demo_def Let_def)
  have q: "calculate_plddt_pipeline ?w ?fs ''analysis_result.pdb'' = 90"
    by (simp add: calculate_plddt_pipeline_def atom_line_90 np_mean_def)
  have t: "run_topology_analysis_pipeline ?w ?fs ''analysis_result.pdb''
             = (Some ''0_1'', 7 / 10, 3 / 10)"
    by (simp add: run_topology_analysis_pipeline_def alexander_at_def jones_at_def
        world_demo_def dict_get_def py_max_key_def)
  show ?thesis
    by (simp add: main_pipeline_def strip_MKV r q t KNOT_THRESHOLD_def MINIMUM_PLDDT_def)
qed

lemma demo_retrieve_any:
  "retrieve_structure_alpha (world_demo body t) sequence name fs
     = (Some name, fs(name \<mapsto> body))"
  by (simp add: retrieve_structure_alpha_def world_demo_def)

lemma demo_quality_alpha_50:
  "calculate_plddt_alpha (world_demo body t) (fs(name \<mapsto> [atom_line ''  0.50''])) name = 50"
  by (simp add: calculate_plddt_alpha_def atom_line_values np_mean_def)

lemma demo_seen:
  "topology_seen (world_demo body t) s = Some t"
  by (simp add: topology_seen_def world_demo_def)

lemma demo_analyze_chunk_90:
  "analyze_chunk (world_demo [atom_line ''  0.90''] (Returns (Some [(''0_1'', 1 / 10), (''3_1'', 9 / 10)])))
     sequence start_index end_index fs
   = ((True, Some ''3_1'', 90,
       Some (''fragment_'' @ str_int start_index @ ''_'' @ str_int end_index @ ''.pdb'')),
      fs(''fragment_'' @ str_int start_index @ ''_'' @ str_int end_index @ ''.pdb''
           \<mapsto> [atom_line ''  0.90'']))"
  by (simp add: analyze_chunk_def demo_retrieve_any demo_quality_alpha_90 demo_topology_alpha
      KNOT_THRESHOLD_def Let_def)

lemma demo_analyze_chunk_50:
  "analyze_chunk (world_demo [atom_line ''  0.50''] (Returns (Some [(''0_1'', 1 / 10), (''3_1'', 9 / 10)])))
     sequence start_index end_index fs
   = ((True, Some ''3_1'', 50,
       Some (''fragment_'' @ str_int start_index @ ''_'' @ str_int end_index @ ''.pdb'')),
      fs(''fragment_'' @ str_int start_index @ ''_'' @ str_int end_index @ ''.pdb''
           \<mapsto> [atom_line ''  0.50'']))"
  by (simp add: analyze_chunk_def demo_retrieve_any demo_quality_alpha_50 demo_topology_alpha
      KNOT_THRESHOLD_def Let_def)

lemma chunks_60: "chunks 60 = Inr [(0, 60)]"
  by (simp add: chunks_def chunks_cfg_def py_range_def range_up.simps WINDOW_SIZE_def
      OVERLAP_def)

subsection \<open>The detection threshold\<close>

lemma analyze_chunk_retrieved:
  assumes "retrieve_structure_alpha w sequence
             (''fragment_'' @ str_int start_index @ ''_'' @ str_int end_index @ ''.pdb'') fs
           = (Some pdb, fs')"
  shows "fst (fst (analyze_chunk w sequence start_index end_index fs))
           = (KNOT_THRESHOLD < snd (snd (run_topology_analysis_alpha w fs' pdb)))"
  using assms by (simp add: analyze_chunk_def Let_def split: prod.splits)

lemma analyze_chunk_not_retrieved:
  assumes "retrieve_structure_alpha w sequence
             (''fragment_'' @ str_int start_index @ ''_'' @ str_int end_index @ ''.pdb'') fs
           = (None, fs')"
  shows "analyze_chunk w sequence start_index end_index fs = ((False, None, 0, None), fs')"
  using assms by (simp add: analyze_chunk_def Let_def)

lemma main_pipeline_verdict:
  assumes "main_pipeline w typed fs = (Direct r, fs')"
  shows "verdict r =
           (if KNOT_THRESHOLD < knotted_probability r
            then KNOT_DETECTED (fst (run_topology_analysis_pipeline w fs' ''analysis_result.pdb''))
            else if knotted_probability r < 2 / 10 then UNKNOTTED else AMBIGUOUS)"
    and "knotted_probability r
           = snd (snd (run_topology_analysis_pipeline w fs' ''analysis_result.pdb''))"
  using assms
  by (auto simp: main_pipeline_def retrieve_structure_pipeline_def Let_def
      split: prod.splits option.splits if_splits response.splits)

text \<open>
  Claim C5. A fragment whose structure was retrieved is flagged knotted by \<open>analyze_chunk\<close>
  if and only if the knotted probability of its topology analysis is strictly above
  \<open>KNOT_THRESHOLD\<close>, which is 0.50; a fragment without a structure is not flagged. At a
  probability of exactly 0.50 the fragment is not knotted. The pipeline's verdict is
  \<open>KNOT DETECTED\<close> under the same strict comparison, and at exactly 0.50 it is not.
\<close>

theorem knotted_iff_above_threshold:
  "(retrieve_structure_alpha w sequence
       (''fragment_'' @ str_int start_index @ ''_'' @ str_int end_index @ ''.pdb'') fs
     = (Some pdb, fs') \<longrightarrow>
       fst (fst (analyze_chunk w sequence start_index end_index fs))
         = (KNOT_THRESHOLD < snd (snd (run_topology_analysis_alpha w fs' pdb)))
       \<and> (snd (snd (run_topology_analysis_alpha w fs' pdb)) = 1 / 2 \<longrightarrow>
            \<not> fst (fst (analyze_chunk w sequence start_index end_index fs))))
   \<and> (retrieve_structure_alpha w sequence
       (''fragment_'' @ str_int start_index @ ''_'' @ str_int end_index @ ''.pdb'') fs
     = (None, fs') \<longrightarrow>
       \<not> fst (fst (analyze_chunk w sequence start_index end_index fs)))
   \<and> (main_pipeline w typed fs = (Direct r, fs'') \<longrightarrow>
       (\<exists>k. verdict r = KNOT_DETECTED k) = (KNOT_THRESHOLD < knotted_probability r)
       \<and> (knotted_probability r = 1 / 2 \<longrightarrow> verdict r = AMBIGUOUS))
   \<and> KNOT_THRESHOLD = 1 / 2"
proof -
  have a: "retrieve_structure_alpha w sequence
       (''fragment_'' @ str_int start_index @ ''_'' @ str_int end_index @ ''.pdb'') fs
     = (Some pdb, fs') \<longrightarrow>
       fst (fst (analyze_chunk w sequence start_index end_index fs))
         = (KNOT_THRESHOLD < snd (snd (run_topology_analysis_alpha w fs' pdb)))
       \<and> (snd (snd (run_topology_analysis_alpha w fs' pdb)) = 1 / 2 \<longrightarrow>
            \<not> fst (fst (analyze_chunk w sequence start_index end_index fs)))"
    using analyze_chunk_retrieved[of w sequence start_index end_index fs pdb fs']
    by (simp add: KNOT_THRESHOLD_def)
  have b: "retrieve_structure_alpha w sequence
       (''fragment_'' @ str_int start_index @ ''_'' @ str_int end_index @ ''.pdb'') fs
     = (None, fs') \<longrightarrow>
       \<not> fst (fst (analyze_chunk w sequence start_index end_index fs))"
    using analyze_chunk_not_retrieved[of w sequence start_index end_index fs fs'] by simp
  have c: "main_pipeline w typed fs = (Direct r, fs'') \<longrightarrow>
       (\<exists>k. verdict r = KNOT_DETECTED k) = (KNOT_THRESHOLD < knotted_probability r)
       \<and> (knotted_probability r = 1 / 2 \<longrightarrow> verdict r = AMBIGUOUS)"
    using main_pipeline_verdict(1)[of w typed fs r fs'']
    by (auto simp: KNOT_THRESHOLD_def)
  from a b c show ?thesis by (simp add: KNOT_THRESHOLD_def)
qed

theorem knotted_iff_above_threshold_witness:
  "analyze_chunk (world_demo [atom_line ''  0.90''] (Returns (Some [(''0_1'', 1 / 2), (''3_1'', 1 / 2)])))
      ''MKV'' 1 3 Map.empty
     = ((False, None, 0, None),
        [''fragment_1_3.pdb'' \<mapsto> [atom_line ''  0.90'']])
   \<and> fst (fst (analyze_chunk
        (world_demo [atom_line ''  0.90''] (Returns (Some [(''0_1'', 1 / 10), (''3_1'', 9 / 10)])))
        ''MKV'' 1 3 Map.empty))"
proof -
  let ?body = "[atom_line ''  0.90'']"
  let ?half = "world_demo ?body (Returns (Some [(''0_1'', 1 / 2), (''3_1'', 1 / 2)]))"
  let ?knot = "world_demo ?body (Returns (Some [(''0_1'', 1 / 10), (''3_1'', 9 / 10)]))"
  let ?fs' = "[''fragment_1_3.pdb'' \<mapsto> ?body] :: files"
  have r: "retrieve_structure_alpha ?half ''MKV''
             (''fragment_'' @ str_int 1 @ ''_'' @ str_int 3 @ ''.pdb'') Map.empty
           = (Some ''fragment_1_3.pdb'', ?fs')"
    by (simp add: retrieve_structure_alpha_def world_demo_def str_int_1 str_int_3)
  have r': "retrieve_structure_alpha ?knot ''MKV''
             (''fragment_'' @ str_int 1 @ ''_'' @ str_int 3 @ ''.pdb'') Map.empty
           = (Some ''fragment_1_3.pdb'', ?fs')"
    by (simp add: retrieve_structure_alpha_def world_demo_def str_int_1 str_int_3)
  have p: "snd (snd (run_topology_analysis_alpha ?half ?fs' ''fragment_1_3.pdb'')) = 1 / 2"
    by (simp add: run_topology_analysis_alpha_def alexander_at_def world_demo_def
        dict_get_def py_max_key_def)
  have p': "snd (snd (run_topology_analysis_alpha ?knot ?fs' ''fragment_1_3.pdb'')) = 9 / 10"
    by (simp add: run_topology_analysis_alpha_def alexander_at_def world_demo_def
        dict_get_def py_max_key_def)
  from knotted_iff_above_threshold[of ?half "''MKV''" 1 3 Map.empty "''fragment_1_3.pdb''" ?fs']
       r p
  have n: "\<not> fst (fst (analyze_chunk ?half ''MKV'' 1 3 Map.empty))"
    by (simp add: KNOT_THRESHOLD_def)
  from knotted_iff_above_threshold[of ?knot "''MKV''" 1 3 Map.empty "''fragment_1_3.pdb''" ?fs']
       r' p'
  have y: "fst (fst (analyze_chunk ?knot ''MKV'' 1 3 Map.empty))"
    by (simp add: KNOT_THRESHOLD_def)
  have "analyze_chunk ?half ''MKV'' 1 3 Map.empty = ((False, None, 0, None), ?fs')"
    using n r by (simp add: analyze_chunk_def Let_def split: prod.splits if_splits)
  with y show ?thesis by simp
qed

subsection \<open>Runs in which every prediction fails\<close>

lemma analyze_chunk_failed:
  assumes "\<not> succeeded (requests_post w (clean_whitespace sequence))"
  shows "analyze_chunk w sequence start_index end_index fs = ((False, None, 0, None), fs)"
  using assms
  by (cases "requests_post w (clean_whitespace sequence)")
     (simp_all add: analyze_chunk_def retrieve_structure_alpha_def Let_def)

lemma analyze_ranges_failed:
  assumes "\<forall>(start, e) \<in> set rs.
             \<not> succeeded (requests_post w (clean_whitespace (py_slice full start e)))"
  shows "analyze_ranges w full rs fs acc = (acc, fs)"
  using assms
proof (induction rs arbitrary: fs acc)
  case Nil
  then show ?case by simp
next
  case (Cons r rs)
  obtain start e where r: "r = (start, e)" by (cases r)
  from Cons.prems r
  have "\<not> succeeded (requests_post w (clean_whitespace (py_slice full start e)))" by simp
  then have "analyze_chunk w (py_slice full start e) (start + 1) e fs
               = ((False, None, 0, None), fs)"
    by (rule analyze_chunk_failed)
  moreover from Cons.prems have "\<forall>(start, e) \<in> set rs.
             \<not> succeeded (requests_post w (clean_whitespace (py_slice full start e)))" by simp
  ultimately show ?case using Cons.IH r by simp
qed

lemma fragment_loop_app_failed:
  assumes "\<forall>(start, e) \<in> set rs. \<not> succeeded (requests_post w (py_slice clean start e))"
  shows "fragment_loop_app w clean rs fs acc = (acc, fs)"
  using assms
proof (induction rs arbitrary: fs acc)
  case Nil
  then show ?case by simp
next
  case (Cons r rs)
  obtain start e where r: "r = (start, e)" by (cases r)
  from Cons.prems r
  have f: "\<not> succeeded (requests_post w (py_slice clean start e))" by simp
  from Cons.prems have "\<forall>(start, e) \<in> set rs.
             \<not> succeeded (requests_post w (py_slice clean start e))" by simp
  from Cons.IH[OF this] f r show ?case
    by (cases "requests_post w (py_slice clean start e)") (simp_all add: Let_def)
qed

lemma run_sliding_window_plan:
  "run_sliding_window w full fs =
     (case chunks (int (length full)) of
        Inl e \<Rightarrow> Inl (e, fs)
      | Inr planned \<Rightarrow> Inr (analyze_ranges w full planned fs []))"
  by (simp add: run_sliding_window_def chunks_def run_sliding_window_cfg_plan)

lemma alpha_all_fail:
  assumes "400 < length (py_strip typed)"
    and "chunks (int (length (py_strip typed))) = Inr rs"
    and "\<forall>(start, e) \<in> set rs.
           \<not> succeeded (requests_post w (clean_whitespace (py_slice (py_strip typed) start e)))"
  shows "run_sliding_window w (py_strip typed) fs = Inr ([], fs)"
    and "main_alpha w typed fs = Inr (No_knots_detected, fs)"
proof -
  show a: "run_sliding_window w (py_strip typed) fs = Inr ([], fs)"
    using assms(2) analyze_ranges_failed[OF assms(3)] by (simp add: run_sliding_window_plan)
  show "main_alpha w typed fs = Inr (No_knots_detected, fs)"
    using assms(1) a by (simp add: main_alpha_def Let_def)
qed

lemma app_all_fail:
  assumes "sequence_input \<noteq> []"
    and "400 < length (sanitize_sequence sequence_input)"
    and "chunks (int (length (sanitize_sequence sequence_input))) = Inr rs"
    and "\<forall>(start, e) \<in> set rs.
           \<not> succeeded (requests_post w (py_slice (sanitize_sequence sequence_input) start e))"
  shows "run_app w sequence_input fs = Inr (No_knots_detected, fs)"
  using assms(1,2,3) fragment_loop_app_failed[OF assms(4)]
  by (simp add: run_app_def Let_def)

text \<open>
  Claim C3. In a windowed run (more than 400 residues) in which the prediction call of every
  planned fragment fails, by an exception or by a status other than 200, \<open>analyze_chunk\<close>
  returns \<open>(False, None, 0, None)\<close> for each fragment and writes no file, the run returns
  normally with an empty list of knots, and the conclusion is that no knots were detected.
  The same holds of the loop of app.py, which swallows the exception and skips the status.
\<close>

theorem all_fragments_fail:
  "(400 < length (py_strip typed)
    \<and> chunks (int (length (py_strip typed))) = Inr rs
    \<and> (\<forall>(start, e) \<in> set rs.
          \<not> succeeded (requests_post w (clean_whitespace (py_slice (py_strip typed) start e))))
    \<longrightarrow> (\<forall>(start, e) \<in> set rs. \<forall>fs'.
            analyze_chunk w (py_slice (py_strip typed) start e) (start + 1) e fs'
              = ((False, None, 0, None), fs'))
        \<and> run_sliding_window w (py_strip typed) fs = Inr ([], fs)
        \<and> main_alpha w typed fs = Inr (No_knots_detected, fs))
   \<and> (sequence_input \<noteq> []
    \<and> 400 < length (sanitize_sequence sequence_input)
    \<and> chunks (int (length (sanitize_sequence sequence_input))) = Inr rs'
    \<and> (\<forall>(start, e) \<in> set rs'.
          \<not> succeeded (requests_post w (py_slice (sanitize_sequence sequence_input) start e)))
    \<longrightarrow> fragment_loop_app w (sanitize_sequence sequence_input) rs' fs [] = ([], fs)
        \<and> run_app w sequence_input fs = Inr (No_knots_detected, fs))"
proof -
  have a: "400 < length (py_strip typed)
    \<and> chunks (int (length (py_strip typed))) = Inr rs
    \<and> (\<forall>(start, e) \<in> set rs.
          \<not> succeeded (requests_post w (clean_whitespace (py_slice (py_strip typed) start e))))
    \<longrightarrow> (\<forall>(start, e) \<in> set rs. \<forall>fs'.
            analyze_chunk w (py_slice (py_strip typed) start e) (start + 1) e fs'
              = ((False, None, 0, None), fs'))
        \<and> run_sliding_window w (py_strip typed) fs = Inr ([], fs)
        \<and> main_alpha w typed fs = Inr (No_knots_detected, fs)"
    using alpha_all_fail[of typed rs w fs] analyze_chunk_failed[of w] by fastforce
  have b: "sequence_input \<noteq> []
    \<and> 400 < length (sanitize_sequence sequence_input)
    \<and> chunks (int (length (sanitize_sequence sequence_input))) = Inr rs'
    \<and> (\<forall>(start, e) \<in> set rs'.
          \<not> succeeded (requests_post w (py_slice (sanitize_sequence sequence_input) start e)))
    \<longrightarrow> fragment_loop_app w (sanitize_sequence sequence_input) rs' fs [] = ([], fs)
        \<and> run_app w sequence_input fs = Inr (No_knots_detected, fs)"
    using app_all_fail[of sequence_input rs' w fs]
          fragment_loop_app_failed[of rs' w "sanitize_sequence sequence_input" fs "[]"]
    by blast
  from a b show ?thesis by blast
qed

theorem all_fragments_fail_witness:
  "main_alpha world_down (replicate 401 (CHR ''A'')) Map.empty
     = Inr (No_knots_detected, Map.empty)
   \<and> run_app world_down (replicate 401 (CHR ''A'')) Map.empty
     = Inr (No_knots_detected, Map.empty)
   \<and> requests_post world_down (replicate 400 (CHR ''A'')) = Response 413 []
   \<and> requests_post world_down (replicate 201 (CHR ''A'')) = ConnectionFailed"
proof -
  let ?seq = "replicate 401 (CHR ''A'')"
  let ?rs = "[(0, 400), (200, 401)] :: (int \<times> int) list"
  have l: "400 < length (py_strip ?seq)" "400 < length (sanitize_sequence ?seq)" "?seq \<noteq> []"
    by (simp_all add: strip_As sanitize_As)
  have c: "chunks (int (length (py_strip ?seq))) = Inr ?rs"
    "chunks (int (length (sanitize_sequence ?seq))) = Inr ?rs"
    by (simp_all add: strip_As sanitize_As chunks_401)
  have f: "\<forall>(start, e) \<in> set ?rs.
          \<not> succeeded (requests_post world_down (clean_whitespace (py_slice (py_strip ?seq) start e)))"
    by (simp add: strip_As py_slice_def slice_index_def clean_As world_down_def)
  have g: "\<forall>(start, e) \<in> set ?rs.
          \<not> succeeded (requests_post world_down (py_slice (sanitize_sequence ?seq) start e))"
    by (simp add: sanitize_As py_slice_def slice_index_def world_down_def)
  from all_fragments_fail[where typed = ?seq and rs = ?rs and w = world_down
         and sequence_input = ?seq and rs' = ?rs and fs = Map.empty] l c f g
  show ?thesis by (simp add: world_down_def)
qed

subsection \<open>The conclusion of a single-shot run\<close>

lemma main_alpha_direct:
  assumes "main_alpha w typed fs = Inr (Direct r, fs')"
  shows "length (py_strip typed) \<le> 400"
    and "verdict r =
           (if KNOT_THRESHOLD < knotted_probability r
            then KNOT_DETECTED (fst (run_topology_analysis_alpha w fs' ''analysis_result.pdb''))
            else UNKNOTTED)"
  using assms
  by (auto simp: main_alpha_def Let_def split: prod.splits option.splits if_splits sum.splits)

lemma run_app_direct:
  assumes "run_app w sequence_input fs = Inr (Direct r, fs')"
  shows "length (sanitize_sequence sequence_input) \<le> 400"
    and "verdict r =
           (if KNOT_THRESHOLD < knotted_probability r
            then KNOT_DETECTED (fst (run_topology_analysis_app w fs' ''analysis_result.pdb''))
            else if knotted_probability r < 2 / 10 then UNKNOTTED else AMBIGUOUS)"
  using assms
  by (auto simp: run_app_def Let_def
      split: prod.splits option.splits if_splits sum.splits response.splits)

text \<open>
  Claim C8, as amended. A run of the pipeline, and a direct-mode run of app.py (at most 400
  residues), that reaches a verdict concludes three ways: knot detected when the knotted
  probability is strictly above the threshold, unknotted when it is below 0.2, ambiguous
  otherwise. A direct-mode run of alpha\_lookup.py concludes two ways: knot detected when
  the probability is strictly above the threshold, unknotted otherwise.

  The claim as stated makes every direct-mode run three-way; with a knotted probability of
  0.3 the direct mode of alpha\_lookup.py concludes unknotted, not ambiguous.
\<close>

theorem direct_conclusion:
  "(main_pipeline w typed fs = (Direct r, fs') \<longrightarrow>
      (KNOT_THRESHOLD < knotted_probability r \<longrightarrow> (\<exists>k. verdict r = KNOT_DETECTED k))
      \<and> (knotted_probability r < 2 / 10 \<longrightarrow> verdict r = UNKNOTTED)
      \<and> (2 / 10 \<le> knotted_probability r \<and> knotted_probability r \<le> KNOT_THRESHOLD \<longrightarrow>
           verdict r = AMBIGUOUS))
   \<and> (run_app w sequence_input fs = Inr (Direct r, fs') \<longrightarrow>
      length (sanitize_sequence sequence_input) \<le> 400
      \<and> (KNOT_THRESHOLD < knotted_probability r \<longrightarrow> (\<exists>k. verdict r = KNOT_DETECTED k))
      \<and> (knotted_probability r < 2 / 10 \<longrightarrow> verdict r = UNKNOTTED)
      \<and> (2 / 10 \<le> knotted_probability r \<and> knotted_probability r \<le> KNOT_THRESHOLD \<longrightarrow>
           verdict r = AMBIGUOUS))
   \<and> (main_alpha w typed fs = Inr (Direct r, fs') \<longrightarrow>
      length (py_strip typed) \<le> 400
      \<and> (KNOT_THRESHOLD < knotted_probability r \<longrightarrow> (\<exists>k. verdict r = KNOT_DETECTED k))
      \<and> (knotted_probability r \<le> KNOT_THRESHOLD \<longrightarrow> verdict r = UNKNOTTED))"
proof -
  have a: "main_pipeline w typed fs = (Direct r, fs') \<longrightarrow>
      (KNOT_THRESHOLD < knotted_probability r \<longrightarrow> (\<exists>k. verdict r = KNOT_DETECTED k))
      \<and> (knotted_probability r < 2 / 10 \<longrightarrow> verdict r = UNKNOTTED)
      \<and> (2 / 10 \<le> knotted_probability r \<and> knotted_probability r \<le> KNOT_THRESHOLD \<longrightarrow>
           verdict r = AMBIGUOUS)"
    using main_pipeline_verdict(1)[of w typed fs r fs'] by (simp add: KNOT_THRESHOLD_def)
  have b: "run_app w sequence_input fs = Inr (Direct r, fs') \<longrightarrow>
      length (sanitize_sequence sequence_input) \<le> 400
      \<and> (KNOT_THRESHOLD < knotted_probability r \<longrightarrow> (\<exists>k. verdict r = KNOT_DETECTED k))
      \<and> (knotted_probability r < 2 / 10 \<longrightarrow> verdict r = UNKNOTTED)
      \<and> (2 / 10 \<le> knotted_probability r \<and> knotted_probability r \<le> KNOT_THRESHOLD \<longrightarrow>
           verdict r = AMBIGUOUS)"
    using run_app_direct[of w sequence_input fs r fs'] by (simp add: KNOT_THRESHOLD_def)
  have c: "main_alpha w typed fs = Inr (Direct r, fs') \<longrightarrow>
      length (py_strip typed) \<le> 400
      \<and> (KNOT_THRESHOLD < knotted_probability r \<longrightarrow> (\<exists>k. verdict r = KNOT_DETECTED k))
      \<and> (knotted_probability r \<le> KNOT_THRESHOLD \<longrightarrow> verdict r = UNKNOTTED)"
    using main_alpha_direct[of w typed fs r fs'] by (simp add: KNOT_THRESHOLD_def)
  from a b c show ?thesis by blast
qed

theorem direct_conclusion_witness:
  "fst (main_pipeline
     (world_demo [atom_line ''  0.90''] (Returns (Some [(''0_1'', 7 / 10), (''3_1'', 3 / 10)])))
     ''MKV'' Map.empty)
   = Direct \<lparr>quality = 90, quality_pass = True, knotted_probability = 3 / 10,
              verdict = AMBIGUOUS\<rparr>
   \<and> verdict \<lparr>quality = 90, quality_pass = True, knotted_probability = 3 / 10,
              verdict = AMBIGUOUS\<rparr> = AMBIGUOUS"
  using direct_conclusion[where w = "world_demo [atom_line ''  0.90'']
            (Returns (Some [(''0_1'', 7 / 10), (''3_1'', 3 / 10)]))"
          and typed = "''MKV''" and fs = Map.empty
          and r = "\<lparr>quality = 90, quality_pass = True, knotted_probability = 3 / 10,
                    verdict = AMBIGUOUS\<rparr>"
          and fs' = "[''analysis_result.pdb'' \<mapsto> [atom_line ''  0.90'']]"]
        demo_main_pipeline
  by simp

theorem direct_conclusion_counterexample:
  "map_sum id fst
     (main_alpha (world_demo [atom_line ''  0.90''] (Returns (Some [(''0_1'', 7 / 10), (''3_1'', 3 / 10)])))
        ''MKV'' Map.empty)
   = Inr (Direct \<lparr>quality = 90, quality_pass = True, knotted_probability = 3 / 10,
                  verdict = UNKNOTTED\<rparr>)
   \<and> (2::real) / 10 \<le> 3 / 10 \<and> (3::real) / 10 \<le> KNOT_THRESHOLD"
  by (simp add: main_alpha_def strip_MKV demo_retrieve demo_quality_alpha_90
      demo_topology_alpha KNOT_THRESHOLD_def)

subsection \<open>The quality score decides nothing\<close>

lemma analyze_chunk_same:
  assumes "topology_seen w1 (clean_whitespace sequence) = topology_seen w2 (clean_whitespace sequence)"
  shows "decision_of (fst (analyze_chunk w1 sequence start_index end_index fs1))
           = decision_of (fst (analyze_chunk w2 sequence start_index end_index fs2))"
  using assms
  by (auto simp: analyze_chunk_def retrieve_structure_alpha_def topology_seen_def decision_of_def
      run_topology_analysis_alpha_def alexander_at_def Let_def
      split: response.splits if_splits prod.splits raising.splits option.splits)

lemma analyze_ranges_same:
  assumes "\<forall>(start, e) \<in> set rs.
             topology_seen w1 (clean_whitespace (py_slice full start e))
               = topology_seen w2 (clean_whitespace (py_slice full start e))"
    and "map knot_of acc1 = map knot_of acc2"
  shows "map knot_of (fst (analyze_ranges w1 full rs fs1 acc1))
           = map knot_of (fst (analyze_ranges w2 full rs fs2 acc2))"
  using assms
proof (induction rs arbitrary: fs1 fs2 acc1 acc2)
  case Nil
  then show ?case by simp
next
  case (Cons r rs)
  obtain start e where r: "r = (start, e)" by (cases r)
  obtain k1 t1 q1 f1 fsa where a1:
    "analyze_chunk w1 (py_slice full start e) (start + 1) e fs1 = ((k1, t1, q1, f1), fsa)"
    by (metis prod.exhaust)
  obtain k2 t2 q2 f2 fsb where a2:
    "analyze_chunk w2 (py_slice full start e) (start + 1) e fs2 = ((k2, t2, q2, f2), fsb)"
    by (metis prod.exhaust)
  from Cons.prems(1) r
  have "topology_seen w1 (clean_whitespace (py_slice full start e))
          = topology_seen w2 (clean_whitespace (py_slice full start e))" by simp
  from analyze_chunk_same[OF this, of "start + 1" e fs1 fs2] a1 a2
  have same: "k1 = k2" "t1 = t2" by (simp_all add: decision_of_def)
  let ?ent = "\<lambda>t q. \<lparr>entry_range = str_int (start + 1) @ ''-'' @ str_int e,
                      entry_type = t, entry_quality = q\<rparr>"
  have accs: "map knot_of (if k1 then acc1 @ [?ent t1 q1] else acc1)
                = map knot_of (if k2 then acc2 @ [?ent t2 q2] else acc2)"
  proof -
    have "knot_of (?ent t1 q1) = knot_of (?ent t2 q2)"
      using same by (simp add: knot_of_def)
    with same Cons.prems(2) show ?thesis by simp
  qed
  from Cons.prems(1) have rest: "\<forall>(start, e) \<in> set rs.
             topology_seen w1 (clean_whitespace (py_slice full start e))
               = topology_seen w2 (clean_whitespace (py_slice full start e))" by simp
  from Cons.IH[OF rest accs, of fsa fsb] show ?case
    using r a1 a2 by simp
qed

lemma fragment_loop_app_same:
  assumes "\<forall>(start, e) \<in> set rs.
             topology_seen w1 (py_slice clean start e) = topology_seen w2 (py_slice clean start e)"
    and "map row_of acc1 = map row_of acc2"
  shows "map row_of (fst (fragment_loop_app w1 clean rs fs1 acc1))
           = map row_of (fst (fragment_loop_app w2 clean rs fs2 acc2))"
  using assms
proof (induction rs arbitrary: fs1 fs2 acc1 acc2)
  case Nil
  then show ?case by simp
next
  case (Cons r rs)
  obtain start e where r: "r = (start, e)" by (cases r)
  let ?name = "''fragment_'' @ str_int (start + 1) @ ''_'' @ str_int e @ ''.pdb''"
  let ?s = "py_slice clean start e"
  from Cons.prems(1) r
  have seen: "topology_seen w1 ?s = topology_seen w2 ?s" by simp
  from Cons.prems(1) have rest: "\<forall>(start, e) \<in> set rs.
             topology_seen w1 (py_slice clean start e) = topology_seen w2 (py_slice clean start e)"
    by simp
  note IH = Cons.IH[OF rest]
  show ?case
  proof (cases "topology_seen w1 ?s")
    case None
    with seen have n2: "topology_seen w2 ?s = None" by simp
    from None have s1: "fragment_loop_app w1 clean (r # rs) fs1 acc1
                          = fragment_loop_app w1 clean rs fs1 acc1"
      using r by (auto simp: topology_seen_def Let_def split: response.splits if_splits)
    from n2 have s2: "fragment_loop_app w2 clean (r # rs) fs2 acc2
                          = fragment_loop_app w2 clean rs fs2 acc2"
      using r by (auto simp: topology_seen_def Let_def split: response.splits if_splits)
    from IH[OF Cons.prems(2), of fs1 fs2] s1 s2 show ?thesis by simp
  next
    case (Some t)
    with seen have t2: "topology_seen w2 ?s = Some t" by simp
    from Some obtain b1 where p1: "requests_post w1 ?s = Response 200 b1"
      and o1: "topoly_alexander w1 b1 = t"
      by (auto simp: topology_seen_def split: response.splits if_splits)
    from t2 obtain b2 where p2: "requests_post w2 ?s = Response 200 b2"
      and o2: "topoly_alexander w2 b2 = t"
      by (auto simp: topology_seen_def split: response.splits if_splits)
    have topo: "run_topology_analysis_app w1 (fs1(?name \<mapsto> b1)) ?name
                  = run_topology_analysis_app w2 (fs2(?name \<mapsto> b2)) ?name"
      using o1 o2 by (simp add: run_topology_analysis_app_def alexander_at_def)
    obtain kt pr where res: "run_topology_analysis_app w1 (fs1(?name \<mapsto> b1)) ?name = (kt, pr)"
      by (cases "run_topology_analysis_app w1 (fs1(?name \<mapsto> b1)) ?name")
    from res topo
    have res2: "run_topology_analysis_app w2 (fs2(?name \<mapsto> b2)) ?name = (kt, pr)" by simp
    let ?row = "\<lambda>q. \<lparr>Fragment = str_int (start + 1) @ ''-'' @ str_int e, Type = kt,
                     Probability = pr * 100, pLDDT = q, File = ?name\<rparr>"
    let ?q1 = "calculate_plddt_app w1 (fs1(?name \<mapsto> b1)) ?name"
    let ?q2 = "calculate_plddt_app w2 (fs2(?name \<mapsto> b2)) ?name"
    have accs: "map row_of (if KNOT_THRESHOLD < pr then acc1 @ [?row ?q1] else acc1)
                  = map row_of (if KNOT_THRESHOLD < pr then acc2 @ [?row ?q2] else acc2)"
    proof -
      have "row_of (?row ?q1) = row_of (?row ?q2)" by (simp add: row_of_def)
      with Cons.prems(2) show ?thesis by simp
    qed
    have s1: "fragment_loop_app w1 clean (r # rs) fs1 acc1
                = fragment_loop_app w1 clean rs (fs1(?name \<mapsto> b1))
                    (if KNOT_THRESHOLD < pr then acc1 @ [?row ?q1] else acc1)"
      using r p1 res by (simp add: Let_def)
    have s2: "fragment_loop_app w2 clean (r # rs) fs2 acc2
                = fragment_loop_app w2 clean rs (fs2(?name \<mapsto> b2))
                    (if KNOT_THRESHOLD < pr then acc2 @ [?row ?q2] else acc2)"
      using r p2 res2 by (simp add: Let_def)
    show ?thesis unfolding s1 s2 by (rule IH[OF accs])
  qed
qed

text \<open>
  Claim C10. Take two worlds in which, for the fragment at hand, the prediction either fails
  in both or succeeds in both with structures on which the topology computation returns
  the same; the confidence values of the two structures, and so their quality scores, are
  arbitrary. Then \<open>analyze_chunk\<close> returns the same flag, knot type and file name in both, a
  windowed run of alpha\_lookup.py lists the same ranges and knot types in both, and the
  loop of app.py adds the same rows but for their quality column.
\<close>

theorem quality_does_not_gate:
  "(topology_seen w1 (clean_whitespace sequence) = topology_seen w2 (clean_whitespace sequence)
      \<longrightarrow> decision_of (fst (analyze_chunk w1 sequence start_index end_index fs1))
            = decision_of (fst (analyze_chunk w2 sequence start_index end_index fs2)))
   \<and> ((\<forall>(start, e) \<in> set rs.
          topology_seen w1 (clean_whitespace (py_slice full_sequence start e))
            = topology_seen w2 (clean_whitespace (py_slice full_sequence start e)))
       \<and> chunks (int (length full_sequence)) = Inr rs
      \<longrightarrow> map_sum id (map knot_of \<circ> fst) (run_sliding_window w1 full_sequence fs1)
            = map_sum id (map knot_of \<circ> fst) (run_sliding_window w2 full_sequence fs2))
   \<and> ((\<forall>(start, e) \<in> set rs'.
          topology_seen w1 (py_slice clean_seq start e)
            = topology_seen w2 (py_slice clean_seq start e))
      \<longrightarrow> map row_of (fst (fragment_loop_app w1 clean_seq rs' fs1 []))
            = map row_of (fst (fragment_loop_app w2 clean_seq rs' fs2 [])))"
proof -
  have a: "topology_seen w1 (clean_whitespace sequence) = topology_seen w2 (clean_whitespace sequence)
      \<longrightarrow> decision_of (fst (analyze_chunk w1 sequence start_index end_index fs1))
            = decision_of (fst (analyze_chunk w2 sequence start_index end_index fs2))"
    using analyze_chunk_same by blast
  have b: "(\<forall>(start, e) \<in> set rs.
          topology_seen w1 (clean_whitespace (py_slice full_sequence start e))
            = topology_seen w2 (clean_whitespace (py_slice full_sequence start e)))
       \<and> chunks (int (length full_sequence)) = Inr rs
      \<longrightarrow> map_sum id (map knot_of \<circ> fst) (run_sliding_window w1 full_sequence fs1)
            = map_sum id (map knot_of \<circ> fst) (run_sliding_window w2 full_sequence fs2)"
    using analyze_ranges_same[of rs w1 full_sequence w2 "[]" "[]" fs1 fs2]
    by (simp add: run_sliding_window_plan)
  have c: "(\<forall>(start, e) \<in> set rs'.
          topology_seen w1 (py_slice clean_seq start e)
            = topology_seen w2 (py_slice clean_seq start e))
      \<longrightarrow> map row_of (fst (fragment_loop_app w1 clean_seq rs' fs1 []))
            = map row_of (fst (fragment_loop_app w2 clean_seq rs' fs2 []))"
    using fragment_loop_app_same[of rs' w1 clean_seq w2 "[]" "[]" fs1 fs2] by simp
  from a b c show ?thesis by blast
qed

theorem quality_does_not_gate_witness:
  "fst (analyze_chunk
          (world_demo [atom_line ''  0.90''] (Returns (Some [(''0_1'', 1 / 10), (''3_1'', 9 / 10)])))
          ''MKV'' 1 3 Map.empty)
     = (True, Some ''3_1'', 90, Some ''fragment_1_3.pdb'')
   \<and> fst (analyze_chunk
          (world_demo [atom_line ''  0.50''] (Returns (Some [(''0_1'', 1 / 10), (''3_1'', 9 / 10)])))
          ''MKV'' 1 3 Map.empty)
     = (True, Some ''3_1'', 50, Some ''fragment_1_3.pdb'')
   \<and> map_sum id (map knot_of \<circ> fst)
        (run_sliding_window
          (world_demo [atom_line ''  0.50''] (Returns (Some [(''0_1'', 1 / 10), (''3_1'', 9 / 10)])))
          (replicate 60 (CHR ''A'')) Map.empty)
     = Inr [(''1-60'', Some ''3_1'')]"
proof -
  let ?t = "Returns (Some [(''0_1'', 1 / 10), (''3_1'', 9 / 10)]) :: dist option raising"
  let ?w1 = "world_demo [atom_line ''  0.90''] ?t"
  let ?w2 = "world_demo [atom_line ''  0.50''] ?t"
  let ?full = "replicate 60 (CHR ''A'')"
  let ?rs = "[(0, 60)] :: (int \<times> int) list"
  have h: "\<forall>(start, e) \<in> set ?rs.
          topology_seen ?w1 (clean_whitespace (py_slice ?full start e))
            = topology_seen ?w2 (clean_whitespace (py_slice ?full start e))"
    by (simp add: demo_seen)
  have c: "chunks (int (length ?full)) = Inr ?rs" by (simp add: chunks_60)
  have one: "map_sum id (map knot_of \<circ> fst) (run_sliding_window ?w1 ?full Map.empty)
               = Inr [(''1-60'', Some ''3_1'')]"
    by (simp add: run_sliding_window_plan chunks_60 demo_analyze_chunk_90 knot_of_def
        str_int_1 str_int_60)
  from quality_does_not_gate[where ?w1.0 = ?w1 and ?w2.0 = ?w2 and rs = ?rs
         and full_sequence = ?full and ?fs1.0 = Map.empty and ?fs2.0 = Map.empty] h c one
  have two: "map_sum id (map knot_of \<circ> fst) (run_sliding_window ?w2 ?full Map.empty)
               = Inr [(''1-60'', Some ''3_1'')]"
    by simp
  show ?thesis
    using two by (simp add: demo_analyze_chunk_90 demo_analyze_chunk_50 str_int_1 str_int_3)
qed


end
